theory Spec2Isabelle
  imports Main "HOL-Library.Finite_Map" "HOL-Library.List_Lexorder" "HOL-Library.Char_ord"
begin

section \<open>Strings\<close>

text \<open>
  Go strings are byte sequences, modelled as \<open>string\<close>; a text outside ASCII is its
  UTF-8 encoding.

  \<open>strings.TrimSpace\<close> removes the leading and the trailing white space \<^emph>\<open>as defined by
  Unicode\<close> (\<open>unicode.IsSpace\<close>): the six ASCII characters tab, line feed, vertical tab,
  form feed, carriage return and space, and the code points U+0085, U+00A0, U+1680,
  U+2000 to U+200A, U+2028, U+2029, U+202F, U+205F and U+3000. \<open>spaceRunes\<close> lists their
  UTF-8 encodings. Decoding a rune at the start of a string yields one of them exactly
  when the string starts with its encoding; decoding the last rune yields one of them
  exactly when the string ends with its encoding, because every byte after the first of
  these encodings is a continuation byte. A byte sequence that is not valid UTF-8
  decodes to U+FFFD, which is not white space, and stops the trimming.
\<close>

fun HasPrefix :: "string \<Rightarrow> string \<Rightarrow> bool" where
  "HasPrefix s [] = True"
| "HasPrefix [] (p # ps) = False"
| "HasPrefix (c # cs) (p # ps) = (c = p \<and> HasPrefix cs ps)"

definition HasSuffix :: "string \<Rightarrow> string \<Rightarrow> bool" where
  "HasSuffix s suf = (length suf \<le> length s \<and> drop (length s - length suf) s = suf)"

definition spaceRunes :: "string list" where
  "spaceRunes =
     map (\<lambda>c. [c]) [CHR 0x09, CHR 0x0A, CHR 0x0B, CHR 0x0C, CHR 0x0D, CHR 0x20] @
     map (\<lambda>c. [CHR 0xC2, c]) [CHR 0x85, CHR 0xA0] @
     [CHR 0xE1, CHR 0x9A, CHR 0x80] #
     map (\<lambda>c. [CHR 0xE2, CHR 0x80, c])
       [CHR 0x80, CHR 0x81, CHR 0x82, CHR 0x83, CHR 0x84, CHR 0x85, CHR 0x86, CHR 0x87,
        CHR 0x88, CHR 0x89, CHR 0x8A, CHR 0xA8, CHR 0xA9, CHR 0xAF] @
     [CHR 0xE2, CHR 0x81, CHR 0x9F] #
     [CHR 0xE3, CHR 0x80, CHR 0x80] # []"

text \<open>
  The width in bytes of the white space rune that a string starts with, and of the one
  it ends with; 0 when it starts, or ends, with none.
\<close>

definition leadingSpace :: "string \<Rightarrow> nat" where
  "leadingSpace s = (case filter (HasPrefix s) spaceRunes of [] \<Rightarrow> 0 | w # ws \<Rightarrow> length w)"

definition trailingSpace :: "string \<Rightarrow> nat" where
  "trailingSpace s = (case filter (HasSuffix s) spaceRunes of [] \<Rightarrow> 0 | w # ws \<Rightarrow> length w)"

function TrimLeft :: "string \<Rightarrow> string" where
  "TrimLeft s = (if leadingSpace s = 0 then s else TrimLeft (drop (leadingSpace s) s))"
  by pat_completeness auto
termination
proof (relation "measure length")
  fix s :: string
  assume "leadingSpace s \<noteq> 0"
  then have "s \<noteq> []"
    by (auto simp: leadingSpace_def spaceRunes_def)
  with \<open>leadingSpace s \<noteq> 0\<close> show "(drop (leadingSpace s) s, s) \<in> measure length"
    by simp
qed simp

function TrimRight :: "string \<Rightarrow> string" where
  "TrimRight s =
     (if trailingSpace s = 0 then s else TrimRight (take (length s - trailingSpace s) s))"
  by pat_completeness auto
termination
proof (relation "measure length")
  fix s :: string
  assume "trailingSpace s \<noteq> 0"
  then have "s \<noteq> []"
    by (auto simp: trailingSpace_def spaceRunes_def HasSuffix_def)
  with \<open>trailingSpace s \<noteq> 0\<close> show "(take (length s - trailingSpace s) s, s) \<in> measure length"
    by simp
qed simp

declare TrimLeft.simps [simp del] TrimRight.simps [simp del]

definition TrimSpace :: "string \<Rightarrow> string" where
  "TrimSpace s = TrimRight (TrimLeft s)"

text \<open>
  \<open>strings.ToUpper\<close> and \<open>strings.EqualFold\<close> are modelled on the letters of ASCII: a
  byte outside ASCII is left as it is and equals only itself. The provider applies them
  to the table type, which the schema of the resource restricts to \<open>OFFLINE\<close> and
  \<open>REALTIME\<close> (\<open>stringvalidator.OneOf\<close>), and to the component of a user. No letter of
  \<open>OFFLINE\<close> or \<open>REALTIME\<close> has a case variant outside ASCII under simple case folding,
  so \<open>EqualFold t ''OFFLINE''\<close> and \<open>EqualFold t ''REALTIME''\<close> are as in Go for every
  \<open>t\<close>.
\<close>

definition upperChar :: "char \<Rightarrow> char" where
  "upperChar c =
     (let n = (of_char c :: nat) in if 97 \<le> n \<and> n \<le> 122 then char_of (n - 32) else c)"

definition ToUpper :: "string \<Rightarrow> string" where
  "ToUpper s = map upperChar s"

text \<open>\<open>strings.EqualFold\<close>: equality under case folding.\<close>

definition EqualFold :: "string \<Rightarrow> string \<Rightarrow> bool" where
  "EqualFold s t = (ToUpper s = ToUpper t)"

definition TrimSuffix :: "string \<Rightarrow> string \<Rightarrow> string" where
  "TrimSuffix s suf = (if HasSuffix s suf then take (length s - length suf) s else s)"

fun Contains :: "string \<Rightarrow> string \<Rightarrow> bool" where
  "Contains [] sub = (sub = [])"
| "Contains (c # cs) sub = (HasPrefix (c # cs) sub \<or> Contains cs sub)"

section \<open>Terraform attribute values\<close>

text \<open>A \<open>types.String\<close> is null, unknown or a known string.\<close>

datatype tf_string = Null | Unknown | Known string

fun IsNull :: "tf_string \<Rightarrow> bool" where
  "IsNull Null = True"
| "IsNull _ = False"

fun ValueString :: "tf_string \<Rightarrow> string" where
  "ValueString (Known s) = s"
| "ValueString _ = []"

section \<open>Table identifiers\<close>

definition splitTableID :: "string \<Rightarrow> string \<times> string" where
  "splitTableID ident =
     (if HasSuffix ident ''_OFFLINE'' then (TrimSuffix ident ''_OFFLINE'', ''OFFLINE'')
      else if HasSuffix ident ''_REALTIME'' then (TrimSuffix ident ''_REALTIME'', ''REALTIME'')
      else (ident, []))"

definition joinTableID :: "string \<Rightarrow> string \<Rightarrow> string" where
  "joinTableID logical typ =
     (let logical' = TrimSpace logical; typ' = ToUpper (TrimSpace typ)
      in if logical' = [] \<or> typ' = [] then logical' else logical' @ ''_'' @ typ')"

section \<open>Kafka credentials\<close>

definition buildSaslJaas :: "string \<Rightarrow> string \<Rightarrow> string" where
  \<open>buildSaslJaas username password =
     ''org.apache.kafka.common.security.scram.ScramLoginModule required username="'' @
     username @ ''" password="'' @ password @ ''";''\<close>

text \<open>
  \<open>buildSaslIfProvided\<close> reads the two attributes \<open>kafka_username\<close> and
  \<open>kafka_password\<close> of the planned model; the Go pair \<open>(string, error)\<close> is the sum
  with the error message on the left.
\<close>

definition buildSaslIfProvided :: "tf_string \<Rightarrow> tf_string \<Rightarrow> string + string" where
  "buildSaslIfProvided KafkaUsername KafkaPassword =
     (if IsNull KafkaUsername \<and> IsNull KafkaPassword then Inr []
      else if IsNull KafkaUsername \<or> IsNull KafkaPassword
        then Inl ''both kafka_username and kafka_password must be provided together''
      else let username = ValueString KafkaUsername; password = ValueString KafkaPassword
        in if TrimSpace username = [] \<or> TrimSpace password = []
           then Inl ''both kafka_username and kafka_password must be non-empty''
           else Inr (buildSaslJaas username password))"

text \<open>\<open>%d\<close> of a non-negative integer.\<close>

function showNat :: "nat \<Rightarrow> string" where
  "showNat n = (if n < 10 then [char_of (48 + n)]
                else showNat (n div 10) @ [char_of (48 + n mod 10)])"
  by pat_completeness auto
termination
  by (relation "measure id") auto

declare showNat.simps [simp del]

text \<open>
  \<open>%q\<close> of a string (\<open>strconv.Quote\<close>) on ASCII text: the quote and the backslash are
  escaped, the control characters are written as their escapes, every other byte stands
  for itself.
\<close>

definition hexDigit :: "nat \<Rightarrow> char" where
  "hexDigit n = (if n < 10 then char_of (48 + n) else char_of (87 + n))"

definition quoteChar :: "char \<Rightarrow> string" where
  "quoteChar c =
     (let n = (of_char c :: nat) in
      if n = 34 then [CHR 0x5C, CHR 0x22]
      else if n = 92 then [CHR 0x5C, CHR 0x5C]
      else if n = 7 then [CHR 0x5C, CHR ''a'']
      else if n = 8 then [CHR 0x5C, CHR ''b'']
      else if n = 12 then [CHR 0x5C, CHR ''f'']
      else if n = 10 then [CHR 0x5C, CHR ''n'']
      else if n = 13 then [CHR 0x5C, CHR ''r'']
      else if n = 9 then [CHR 0x5C, CHR ''t'']
      else if n = 11 then [CHR 0x5C, CHR ''v'']
      else if n < 32 \<or> n = 127 then [CHR 0x5C, CHR ''x'', hexDigit (n div 16), hexDigit (n mod 16)]
      else [c])"

definition Quote :: "string \<Rightarrow> string" where
  "Quote s = [CHR 0x22] @ concat (map quoteChar s) @ [CHR 0x22]"

section \<open>JSON documents\<close>

text \<open>
  A decoded JSON value (\<open>interface{}\<close> after \<open>json.Unmarshal\<close>): null, a boolean, a
  number, a string, a sequence or a mapping from keys to values. Numbers are passed
  through and never inspected, so their carrier plays no part.
\<close>

datatype json = JNull | JBool bool | JNum int | JStr string | JArr "json list"
  | JObj "(string, json) fmap"

type_synonym object = "(string, json) fmap"

text \<open>A variable of type \<open>map[string]interface{}\<close>: the nil map or a map.\<close>

datatype gomap = NilMap | Map object

fun index :: "gomap \<Rightarrow> string \<Rightarrow> json option" where
  "index NilMap k = None"
| "index (Map m) k = fmlookup m k"

fun len :: "gomap \<Rightarrow> nat" where
  "len NilMap = 0"
| "len (Map m) = fcard (fmdom m)"

text \<open>The entries that \<open>range\<close> visits, here in the order of their keys.\<close>

fun entries :: "gomap \<Rightarrow> (string \<times> json) list" where
  "entries NilMap = []"
| "entries (Map m) = map (\<lambda>k. (k, the (fmlookup m k))) (sorted_list_of_fset (fmdom m))"

text \<open>\<open>json.Marshal\<close> of a map, as the value it denotes.\<close>

fun marshal :: "gomap \<Rightarrow> json" where
  "marshal NilMap = JNull"
| "marshal (Map m) = JObj m"

text \<open>The type assertions \<open>v, _ := x.(string)\<close> and \<open>v, ok := x.(map[string]interface{})\<close>.\<close>

fun asString :: "json option \<Rightarrow> string" where
  "asString (Some (JStr s)) = s"
| "asString _ = []"

fun asMap :: "json option \<Rightarrow> object option" where
  "asMap (Some (JObj m)) = Some m"
| "asMap _ = None"

text \<open>
  \<open>json.Unmarshal\<close> into a \<open>map[string]interface{}\<close>, from the outcome of decoding the
  text: a syntax error (left) or the value the text denotes.
\<close>

fun unmarshalMap :: "string + json \<Rightarrow> string + gomap" where
  "unmarshalMap (Inl e) = Inl e"
| "unmarshalMap (Inr JNull) = Inr NilMap"
| "unmarshalMap (Inr (JObj m)) = Inr (Map m)"
| "unmarshalMap (Inr (JBool b)) =
     Inl ''json: cannot unmarshal bool into Go value of type map[string]interface {}''"
| "unmarshalMap (Inr (JNum n)) =
     Inl ''json: cannot unmarshal number into Go value of type map[string]interface {}''"
| "unmarshalMap (Inr (JStr s)) =
     Inl ''json: cannot unmarshal string into Go value of type map[string]interface {}''"
| "unmarshalMap (Inr (JArr xs)) =
     Inl ''json: cannot unmarshal array into Go value of type map[string]interface {}''"

text \<open>
  A \<open>jsontypes.Normalized\<close> attribute: null, unknown or a JSON text. The text is held as
  the outcome of decoding it with \<open>json.Unmarshal\<close>: the error message (a text that is
  well-formed and still fails to decode, as with a number outside the range of
  \<open>float64\<close>), or the value it denotes.
\<close>

datatype tf_json = JsonNull | JsonUnknown | JsonValue "string + json"

datatype diag = DiagError string string | DiagWarning string string

fun isError :: "diag \<Rightarrow> bool" where
  "isError (DiagError s d) = True"
| "isError (DiagWarning s d) = False"

definition HasError :: "diag list \<Rightarrow> bool" where
  "HasError ds = (\<exists>d \<in> set ds. isError d)"

fun Unmarshal :: "tf_json \<Rightarrow> diag + gomap" where
  "Unmarshal JsonNull = Inl (DiagError ''Normalized JSON Unmarshal Error'' ''json string value is null'')"
| "Unmarshal JsonUnknown =
     Inl (DiagError ''Normalized JSON Unmarshal Error'' ''json string value is unknown'')"
| "Unmarshal (JsonValue text) =
     (case unmarshalMap text of
        Inl e \<Rightarrow> Inl (DiagError ''Normalized JSON Unmarshal Error'' e)
      | Inr m \<Rightarrow> Inr m)"

section \<open>Secret injection and redaction on documents\<close>

text \<open>
  \<open>injectKafkaSasl\<close> writes into the maps of the document it is given. The document
  comes from \<open>json.Unmarshal\<close>, whose maps and slices are fresh and unshared, so the
  document after the call is the tree with the writes applied along the one path
  \<open>ingestionConfig\<close>, \<open>streamIngestionConfig\<close>, \<open>streamConfigMaps\<close>.
\<close>

definition saslEntry :: "string \<Rightarrow> object" where
  "saslEntry sasl = fmupd ''sasl.jaas.config'' (JStr sasl) fmempty"

definition injectKafkaSasl :: "object \<Rightarrow> string \<Rightarrow> object" where
  "injectKafkaSasl tableConfig sasl =
     (let ingestion = (case asMap (fmlookup tableConfig ''ingestionConfig'') of
                         Some m \<Rightarrow> m | None \<Rightarrow> fmempty);
          streamIngestion = (case asMap (fmlookup ingestion ''streamIngestionConfig'') of
                               Some m \<Rightarrow> m | None \<Rightarrow> fmempty);
          streamConfigMaps =
            (case fmlookup streamIngestion ''streamConfigMaps'' of
               Some (JObj v) \<Rightarrow> JObj (fmupd ''sasl.jaas.config'' (JStr sasl) v)
             | Some (JArr []) \<Rightarrow> JArr [JObj (saslEntry sasl)]
             | Some (JArr (JObj firstMap # rest)) \<Rightarrow>
                 JArr (JObj (fmupd ''sasl.jaas.config'' (JStr sasl) firstMap) # rest)
             | Some (JArr (first # rest)) \<Rightarrow> JArr (JObj (saslEntry sasl) # rest)
             | _ \<Rightarrow> JArr [JObj (saslEntry sasl)])
      in fmupd ''ingestionConfig''
           (JObj (fmupd ''streamIngestionConfig''
              (JObj (fmupd ''streamConfigMaps'' streamConfigMaps streamIngestion)) ingestion))
           tableConfig)"

text \<open>The copy loop of a map that skips the key \<open>sasl.jaas.config\<close>, on one element.\<close>

fun stripElement :: "json \<Rightarrow> json" where
  "stripElement (JObj m) = JObj (fmdrop ''sasl.jaas.config'' m)"
| "stripElement el = el"

definition removeSaslJaasFromTableConfig :: "gomap \<Rightarrow> gomap" where
  "removeSaslJaasFromTableConfig input =
     (case input of
        NilMap \<Rightarrow> NilMap
      | Map out \<Rightarrow>
          (case asMap (fmlookup out ''ingestionConfig'') of
             None \<Rightarrow> Map out
           | Some ingestion \<Rightarrow>
               (case asMap (fmlookup ingestion ''streamIngestionConfig'') of
                  None \<Rightarrow> Map (fmupd ''ingestionConfig'' (JObj ingestion) out)
                | Some streamIngestion \<Rightarrow>
                    (let newStreamIngestion =
                       (case fmlookup streamIngestion ''streamConfigMaps'' of
                          Some (JObj scm) \<Rightarrow>
                            fmupd ''streamConfigMaps'' (JObj (fmdrop ''sasl.jaas.config'' scm))
                              streamIngestion
                        | Some (JArr scmList) \<Rightarrow>
                            fmupd ''streamConfigMaps'' (JArr (map stripElement scmList))
                              streamIngestion
                        | _ \<Rightarrow> streamIngestion)
                     in Map (fmupd ''ingestionConfig''
                          (JObj (fmupd ''streamIngestionConfig'' (JObj newStreamIngestion)
                             ingestion)) out)))))"

section \<open>Paths into a document\<close>

text \<open>
  A path is a sequence of object keys; \<open>getPath\<close> follows it from a value and gives the
  value it reaches, if any.
\<close>

fun getPath :: "string list \<Rightarrow> json \<Rightarrow> json option" where
  "getPath [] j = Some j"
| "getPath (k # ks) (JObj m) = (case fmlookup m k of None \<Rightarrow> None | Some v \<Rightarrow> getPath ks v)"
| "getPath (k # ks) j = None"

definition streamConfigMapsPath :: "string list" where
  "streamConfigMapsPath = [''ingestionConfig'', ''streamIngestionConfig'', ''streamConfigMaps'']"

fun isPrefix :: "string list \<Rightarrow> string list \<Rightarrow> bool" where
  "isPrefix [] q = True"
| "isPrefix (k # p) [] = False"
| "isPrefix (k # p) (k' # q) = (k = k' \<and> isPrefix p q)"

text \<open>
  A path lies outside the stream-config-maps location when it neither leads to the
  location (it is not one of the objects that contain it) nor passes through it.
\<close>

definition outsideStreamConfigMaps :: "string list \<Rightarrow> bool" where
  "outsideStreamConfigMaps p =
     (\<not> isPrefix p streamConfigMapsPath \<and> \<not> isPrefix streamConfigMapsPath p)"

section \<open>The transport client\<close>

text \<open>
  What one HTTP exchange can come to: the request cannot be built, the exchange fails,
  the body cannot be read, or a response arrives with its status, its body text and
  what \<open>json.Unmarshal\<close> makes of that text (a syntax error or a value).
\<close>

datatype transport =
    CannotCreate string
  | ExchangeFails string
  | CannotRead string
  | Response nat string "string + json"

text \<open>\<open>doRequest\<close> after the exchange: the error message, or the body.\<close>

fun doRequest :: "transport \<Rightarrow> string + (string \<times> (string + json))" where
  "doRequest (CannotCreate e) = Inl (''failed to create request: '' @ e)"
| "doRequest (ExchangeFails e) = Inl (''request failed: '' @ e)"
| "doRequest (CannotRead e) = Inl (''failed to read response: '' @ e)"
| "doRequest (Response status respBody decoded) =
     (if status \<ge> 400 then Inl (''API error (status '' @ showNat status @ ''): '' @ respBody)
      else Inr (respBody, decoded))"

record PinotUser =
  Username :: string
  Password :: string
  Component :: string
  Role :: string
  Tables :: "string list option"
  Permissions :: "string list option"

text \<open>
  The calls of the client that reach the controller, each with the arguments that make
  its URL and its body.
\<close>

datatype request =
    GetSchemaRequest string
  | CreateTableRequest gomap
  | GetTableRequest string
  | UpdateTableRequest string gomap
  | ReloadTableRequest string string
  | CreateUserRequest PinotUser
  | GetUserRequest string string

type_synonym remote = "request \<Rightarrow> transport"

text \<open>A Go \<open>error\<close> result is \<open>None\<close> for nil and the message otherwise.\<close>

fun errorOf :: "string + 'a \<Rightarrow> string option" where
  "errorOf (Inl e) = Some e"
| "errorOf (Inr x) = None"

definition GetSchema :: "remote \<Rightarrow> string \<Rightarrow> string + gomap" where
  "GetSchema srv schemaName =
     (case doRequest (srv (GetSchemaRequest schemaName)) of
        Inl err \<Rightarrow> Inl err
      | Inr resp \<Rightarrow>
          (case unmarshalMap (snd resp) of
             Inl err \<Rightarrow> Inl (''failed to unmarshal schema: '' @ err)
           | Inr schema \<Rightarrow> Inr schema))"

definition CreateTable :: "remote \<Rightarrow> gomap \<Rightarrow> string option" where
  "CreateTable srv tableConfig = errorOf (doRequest (srv (CreateTableRequest tableConfig)))"

definition GetTable :: "remote \<Rightarrow> string \<Rightarrow> string + gomap" where
  "GetTable srv tableName =
     (case doRequest (srv (GetTableRequest tableName)) of
        Inl err \<Rightarrow> Inl err
      | Inr resp \<Rightarrow>
          (case unmarshalMap (snd resp) of
             Inl err \<Rightarrow> Inl (''failed to unmarshal table config: '' @ err)
           | Inr response \<Rightarrow>
               (case asMap (index response ''OFFLINE'') of
                  Some offlineConfig \<Rightarrow> Inr (Map offlineConfig)
                | None \<Rightarrow>
                    (case asMap (index response ''REALTIME'') of
                       Some realtimeConfig \<Rightarrow> Inr (Map realtimeConfig)
                     | None \<Rightarrow> Inr response))))"

text \<open>
  \<open>UpdateTable\<close> reads the name out of the body it is about to send, and sends nothing
  when the body has no string \<open>tableName\<close>. The result is the error and the requests made.
\<close>

definition UpdateTable :: "remote \<Rightarrow> gomap \<Rightarrow> string option \<times> request list" where
  "UpdateTable srv tableConfig =
     (case index tableConfig ''tableName'' of
        Some (JStr tableName) \<Rightarrow>
          (errorOf (doRequest (srv (UpdateTableRequest tableName tableConfig))),
           [UpdateTableRequest tableName tableConfig])
      | _ \<Rightarrow> (Some ''table name not found'', []))"

definition ReloadTable :: "remote \<Rightarrow> string \<Rightarrow> string \<Rightarrow> string option \<times> request list" where
  "ReloadTable srv logicalName tableType =
     (if logicalName = [] \<and> tableType = [] then (Some ''logicalName and tableType is required'', [])
      else if logicalName = [] then (Some ''logicalName is required'', [])
      else if tableType = [] then (Some ''tableType is required'', [])
      else (errorOf (doRequest (srv (ReloadTableRequest logicalName (ToUpper tableType)))),
            [ReloadTableRequest logicalName (ToUpper tableType)]))"

definition CreateUser :: "remote \<Rightarrow> PinotUser \<Rightarrow> string option" where
  "CreateUser srv user = errorOf (doRequest (srv (CreateUserRequest user)))"

definition GetUser :: "remote \<Rightarrow> string \<Rightarrow> string \<Rightarrow> string + gomap" where
  "GetUser srv username component =
     (case doRequest (srv (GetUserRequest username (ToUpper component))) of
        Inl err \<Rightarrow> Inl err
      | Inr resp \<Rightarrow>
          (case unmarshalMap (snd resp) of
             Inl err \<Rightarrow> Inl (''failed to unmarshal user JSON: '' @ err)
           | Inr m \<Rightarrow> Inr m))"

section \<open>Resource lifecycle operations\<close>

text \<open>
  What an operation leaves behind: its diagnostics, the tracked state (\<open>None\<close> when the
  resource is not, or no longer, in the state) and the requests it made, in order.
\<close>

record 'm response =
  Diagnostics :: "diag list"
  State :: "'m option"
  Requests :: "request list"

text \<open>An operation returns its response, or panics.\<close>

datatype 'a outcome = Panics | Returns 'a

subsection \<open>Tables\<close>

record TableResourceModel =
  ID :: tf_string
  TableName :: tf_string
  TableType :: tf_string
  TableConfig :: tf_json
  KafkaUsername :: tf_string
  KafkaPassword :: tf_string
  SaslJaasConfig :: tf_string

text \<open>
  The call \<open>injectKafkaSasl(&tableConfig, saslValue)\<close> under \<open>if saslValue != ""\<close>: the
  assignment into a nil map panics.
\<close>

fun injectIfProvided :: "gomap \<Rightarrow> string \<Rightarrow> gomap option" where
  "injectIfProvided tableConfig [] = Some tableConfig"
| "injectIfProvided NilMap saslValue = None"
| "injectIfProvided (Map m) saslValue = Some (Map (injectKafkaSasl m saslValue))"

definition saslAttribute :: "string \<Rightarrow> tf_string" where
  "saslAttribute saslValue = (if saslValue \<noteq> [] then Known saslValue else Null)"

text \<open>The two diagnostics of the identity validation, the same in \<open>Create\<close> and \<open>Update\<close>.\<close>

definition tableNameMismatch :: "string \<Rightarrow> diag" where
  "tableNameMismatch fullTableName =
     DiagError ''Table Name Mismatch'' (''The table configuration name must be '' @ fullTableName)"

definition tableTypeMismatch :: "string \<Rightarrow> diag" where
  "tableTypeMismatch typ =
     DiagError ''Table Type Mismatch'' (''The table configuration type must be '' @ ToUpper typ)"

definition TableResource_Create ::
  "remote \<Rightarrow> TableResourceModel \<Rightarrow> TableResourceModel response outcome" where
  "TableResource_Create srv data =
     (case Unmarshal (TableConfig data) of
        Inl d \<Rightarrow> Returns \<lparr>Diagnostics = [d], State = None, Requests = []\<rparr>
      | Inr tableConfig \<Rightarrow>
          (let fullTableName = joinTableID (ValueString (TableName data)) (ValueString (TableType data))
           in if asString (index tableConfig ''tableName'') \<noteq> fullTableName
              then Returns \<lparr>Diagnostics = [tableNameMismatch fullTableName],
                     State = None, Requests = []\<rparr>
              else if \<not> EqualFold (asString (index tableConfig ''tableType''))
                          (ValueString (TableType data))
              then Returns \<lparr>Diagnostics = [tableTypeMismatch (ValueString (TableType data))],
                     State = None, Requests = []\<rparr>
              else (case buildSaslIfProvided (KafkaUsername data) (KafkaPassword data) of
                 Inl err \<Rightarrow> Returns \<lparr>Diagnostics = [DiagError ''Kafka Credentials Incomplete'' err],
                     State = None, Requests = []\<rparr>
               | Inr saslValue \<Rightarrow>
                   (case injectIfProvided tableConfig saslValue of
                      None \<Rightarrow> Panics
                    | Some sent \<Rightarrow>
                        (case CreateTable srv sent of
                           Some err \<Rightarrow> Returns \<lparr>Diagnostics = [DiagError ''Error Creating Pinot Table''
                               (''Could not create table, unexpected error: '' @ err)],
                             State = None, Requests = [CreateTableRequest sent]\<rparr>
                         | None \<Rightarrow> Returns \<lparr>Diagnostics = [],
                             State = Some (data\<lparr>
                               TableConfig :=
                                 JsonValue (Inr (marshal (removeSaslJaasFromTableConfig sent))),
                               ID := Known fullTableName,
                               SaslJaasConfig := saslAttribute saslValue\<rparr>),
                             Requests = [CreateTableRequest sent]\<rparr>)))))"

definition TableResource_Read ::
  "remote \<Rightarrow> TableResourceModel \<Rightarrow> TableResourceModel response" where
  "TableResource_Read srv data =
     (case GetTable srv (ValueString (ID data)) of
        Inl err \<Rightarrow>
          (if Contains err ''404''
           then \<lparr>Diagnostics = [], State = None,
                 Requests = [GetTableRequest (ValueString (ID data))]\<rparr>
           else \<lparr>Diagnostics = [DiagError ''Error Reading Pinot Table''
                   (''Could not read table ID '' @ ValueString (ID data) @ '': '' @ err)],
                 State = Some data, Requests = [GetTableRequest (ValueString (ID data))]\<rparr>)
      | Inr tableConfig \<Rightarrow>
          \<lparr>Diagnostics = [],
           State = Some (data\<lparr>
             TableConfig :=
               JsonValue (Inr (marshal (removeSaslJaasFromTableConfig tableConfig))),
             SaslJaasConfig := Null\<rparr>),
           Requests = [GetTableRequest (ValueString (ID data))]\<rparr>)"

text \<open>\<open>Update\<close> starts from the prior state, which stays when it returns early.\<close>

definition TableResource_Update ::
  "remote \<Rightarrow> TableResourceModel \<Rightarrow> TableResourceModel \<Rightarrow> TableResourceModel response outcome"
  where
  "TableResource_Update srv prior data =
     (case Unmarshal (TableConfig data) of
        Inl d \<Rightarrow> Returns \<lparr>Diagnostics = [d], State = Some prior, Requests = []\<rparr>
      | Inr tableConfig \<Rightarrow>
          (let fullTableName = joinTableID (ValueString (TableName data)) (ValueString (TableType data));
               tn = asString (index tableConfig ''tableName'');
               tt = asString (index tableConfig ''tableType'')
           in if tn \<noteq> [] \<and> tn \<noteq> fullTableName
              then Returns \<lparr>Diagnostics = [tableNameMismatch fullTableName],
                     State = Some prior, Requests = []\<rparr>
              else if tt \<noteq> [] \<and> \<not> EqualFold tt (ValueString (TableType data))
              then Returns \<lparr>Diagnostics = [tableTypeMismatch (ValueString (TableType data))],
                     State = Some prior, Requests = []\<rparr>
              else (case buildSaslIfProvided (KafkaUsername data) (KafkaPassword data) of
                 Inl err \<Rightarrow> Returns \<lparr>Diagnostics = [DiagError ''Kafka Credentials Incomplete'' err],
                     State = Some prior, Requests = []\<rparr>
               | Inr saslValue \<Rightarrow>
                   (case injectIfProvided tableConfig saslValue of
                      None \<Rightarrow> Panics
                    | Some sent \<Rightarrow>
                        (case UpdateTable srv sent of
                           (Some err, reqs) \<Rightarrow> Returns \<lparr>Diagnostics = [DiagError ''Error Updating Pinot Table''
                               (''Could not update table, unexpected error: '' @ err)],
                             State = Some prior, Requests = reqs\<rparr>
                         | (None, reqs) \<Rightarrow>
                             (let reload = ReloadTable srv (ValueString (TableName data))
                                             (ValueString (TableType data));
                                  warnings = (case fst reload of
                                     Some err \<Rightarrow> [DiagWarning ''Pinot Segment Reload Failed''
                                       (''Updated table '' @ fullTableName @
                                          '' but segment reload failed: '' @ err)]
                                   | None \<Rightarrow> [])
                              in Returns \<lparr>Diagnostics = warnings,
                                   State = Some (data\<lparr>
                                     TableConfig :=
                                       JsonValue
                                         (Inr (marshal (removeSaslJaasFromTableConfig sent))),
                                     SaslJaasConfig := saslAttribute saslValue\<rparr>),
                                   Requests = reqs @ snd reload\<rparr>))))))"

subsection \<open>Schemas\<close>

record SchemaResourceModel =
  SchemaID :: tf_string
  SchemaName :: tf_string
  Schema :: tf_json

definition SchemaResource_Read ::
  "remote \<Rightarrow> SchemaResourceModel \<Rightarrow> SchemaResourceModel response" where
  "SchemaResource_Read srv data =
     (case GetSchema srv (ValueString (SchemaName data)) of
        Inl err \<Rightarrow>
          \<lparr>Diagnostics = [DiagError ''Error Reading Pinot Schema''
             (''Could not read schema ID '' @ ValueString (SchemaID data) @ '': '' @ err)],
           State = Some data, Requests = [GetSchemaRequest (ValueString (SchemaName data))]\<rparr>
      | Inr schema \<Rightarrow>
          \<lparr>Diagnostics = [], State = Some (data\<lparr>Schema := JsonValue (Inr (marshal schema))\<rparr>),
           Requests = [GetSchemaRequest (ValueString (SchemaName data))]\<rparr>)"

subsection \<open>Users\<close>

text \<open>A \<open>types.List\<close> of strings; a Go \<open>[]string\<close> is \<open>None\<close> when nil.\<close>

datatype tf_list = ListNull | ListUnknown | ListKnown "tf_string list"

record UserResourceModel =
  UserID :: tf_string
  UserUsername :: tf_string
  UserPassword :: tf_string
  UserComponent :: tf_string
  UserRole :: tf_string
  UserTables :: tf_list
  UserPermissions :: tf_list

text \<open>
  \<open>ElementsAs\<close> reports an error for an element that is null or unknown; the text of
  that diagnostic is the framework's.
\<close>

definition elementsAsError :: diag where
  "elementsAsError = DiagError ''Value Conversion Error'' ''list element is not a known string''"

fun isKnown :: "tf_string \<Rightarrow> bool" where
  "isKnown (Known s) = True"
| "isKnown _ = False"

fun toStringSlice :: "tf_list \<Rightarrow> string list option \<times> diag list" where
  "toStringSlice ListNull = (None, [])"
| "toStringSlice ListUnknown = (None, [])"
| "toStringSlice (ListKnown xs) =
     (if list_all isKnown xs then (Some (map ValueString xs), []) else (None, [elementsAsError]))"

fun ListValueFrom :: "string list option \<Rightarrow> tf_list" where
  "ListValueFrom None = ListNull"
| "ListValueFrom (Some xs) = ListKnown (map Known xs)"

text \<open>
  \<open>fetchUser\<close> picks the record out of the response. Turning the picked value into a
  \<open>PinotUser\<close> (\<open>json.Marshal\<close> followed by \<open>json.Unmarshal\<close>) is the parameter
  \<open>decode\<close>.
\<close>

definition fetchUser ::
  "(json \<Rightarrow> string + PinotUser) \<Rightarrow> remote \<Rightarrow> string \<Rightarrow> string \<Rightarrow> string + PinotUser" where
  "fetchUser decode srv username component =
     (case GetUser srv username component of
        Inl err \<Rightarrow> Inl err
      | Inr topObj \<Rightarrow>
          (if index topObj ''username'' \<noteq> None then decode (marshal topObj)
           else let key = username @ ''_'' @ component
             in (case index topObj key of
                   Some raw \<Rightarrow> decode raw
                 | None \<Rightarrow>
                     (case (if len topObj = 1 then entries topObj else []) of
                        (k, v) # rest \<Rightarrow> decode v
                      | [] \<Rightarrow> Inl (''unexpected user response; neither plain object nor wrapper with key ''
                                  @ Quote key)))))"

definition fromUser :: "UserResourceModel \<Rightarrow> string \<Rightarrow> PinotUser \<Rightarrow> UserResourceModel" where
  "fromUser data ident u =
     data\<lparr>UserID := Known ident, UserUsername := Known (Username u),
          UserComponent := Known (Component u), UserRole := Known (Role u),
          UserTables := ListValueFrom (Tables u),
          UserPermissions := ListValueFrom (Permissions u)\<rparr>"

definition UserResource_Create ::
  "(json \<Rightarrow> string + PinotUser) \<Rightarrow> remote \<Rightarrow> UserResourceModel \<Rightarrow> UserResourceModel response"
  where
  "UserResource_Create decode srv data =
     (if IsNull (UserPassword data) \<or> ValueString (UserPassword data) = []
      then \<lparr>Diagnostics = [DiagError ''Missing password''
                ''Creating a Pinot user requires a non-empty `password`.''],
            State = None, Requests = []\<rparr>
      else let tables = toStringSlice (UserTables data);
               perms = toStringSlice (UserPermissions data)
        in if HasError (snd tables @ snd perms)
           then \<lparr>Diagnostics = snd tables @ snd perms, State = None, Requests = []\<rparr>
           else let payload = \<lparr>Username = ValueString (UserUsername data),
                                Password = ValueString (UserPassword data),
                                Component = ValueString (UserComponent data),
                                Role = ValueString (UserRole data),
                                Tables = fst tables, Permissions = fst perms\<rparr>
             in (case CreateUser srv payload of
                   Some err \<Rightarrow> \<lparr>Diagnostics = snd tables @ snd perms @
                                   [DiagError ''Error Creating Pinot User'' err],
                                State = None, Requests = [CreateUserRequest payload]\<rparr>
                 | None \<Rightarrow>
                     \<lparr>Diagnostics = snd tables @ snd perms,
                      State = Some (case fetchUser decode srv (Username payload) (Component payload) of
                                Inr u \<Rightarrow> fromUser data (Username payload) u
                              | Inl err \<Rightarrow> fromUser data (Username payload) payload),
                      Requests = [CreateUserRequest payload,
                                  GetUserRequest (Username payload) (ToUpper (Component payload))]\<rparr>))"

definition UserResource_Read ::
  "(json \<Rightarrow> string + PinotUser) \<Rightarrow> remote \<Rightarrow> UserResourceModel \<Rightarrow> UserResourceModel response"
  where
  "UserResource_Read decode srv data =
     (case fetchUser decode srv (ValueString (UserUsername data)) (ValueString (UserComponent data)) of
        Inl err \<Rightarrow>
          \<lparr>Diagnostics = [DiagError ''Error Reading Pinot User''
             (''Could not read user '' @ Quote (ValueString (UserUsername data)) @ '': '' @ err)],
           State = Some data,
           Requests = [GetUserRequest (ValueString (UserUsername data))
                         (ToUpper (ValueString (UserComponent data)))]\<rparr>
      | Inr u \<Rightarrow>
          \<lparr>Diagnostics = [], State = Some (fromUser data (Username u) u),
           Requests = [GetUserRequest (ValueString (UserUsername data))
                         (ToUpper (ValueString (UserComponent data)))]\<rparr>)"

section \<open>Redaction on a store\<close>

text \<open>
  Go maps and slices are references. To follow what \<open>removeSaslJaasFromTableConfig\<close>
  writes and where, its values live in a store: a value is a scalar or the address of a
  cell, a cell holds a map or the elements of a slice, \<open>make\<close> appends a cell, and an
  assignment to a key or an index rewrites the cell at its address.
\<close>

datatype val = VNull | VBool bool | VNum int | VStr string | VSlice nat | VMap nat

datatype cell = MapCell "(string, val) fmap" | SliceCell "val list"

type_synonym store = "cell list"

definition alloc :: "store \<Rightarrow> cell \<Rightarrow> store \<times> nat" where
  "alloc h c = (h @ [c], length h)"

text \<open>The type assertions on a value of the store.\<close>

fun mapAt :: "store \<Rightarrow> val option \<Rightarrow> (string, val) fmap option" where
  "mapAt h (Some (VMap a)) =
     (if a < length h then (case h ! a of MapCell m \<Rightarrow> Some m | SliceCell xs \<Rightarrow> None) else None)"
| "mapAt h v = None"

fun sliceAt :: "store \<Rightarrow> val option \<Rightarrow> val list option" where
  "sliceAt h (Some (VSlice a)) =
     (if a < length h then (case h ! a of SliceCell xs \<Rightarrow> Some xs | MapCell m \<Rightarrow> None) else None)"
| "sliceAt h v = None"

text \<open>The assignments \<open>m[k] = v\<close> and \<open>s[i] = v\<close> through the addresses of \<open>m\<close> and \<open>s\<close>.\<close>

definition setKey :: "store \<Rightarrow> nat \<Rightarrow> string \<Rightarrow> val \<Rightarrow> store" where
  "setKey h a k v = (case h ! a of MapCell m \<Rightarrow> h[a := MapCell (fmupd k v m)] | SliceCell xs \<Rightarrow> h)"

definition setIndex :: "store \<Rightarrow> nat \<Rightarrow> nat \<Rightarrow> val \<Rightarrow> store" where
  "setIndex h a i v = (case h ! a of SliceCell xs \<Rightarrow> h[a := SliceCell (xs[i := v])] | MapCell m \<Rightarrow> h)"

text \<open>
  The loop over \<open>scmList\<close>, from index \<open>i\<close> on: an element that is a map is copied
  without the key into a new map, which is stored at \<open>newList[i]\<close>; any other element is
  stored as it is.
\<close>

fun copyElements :: "store \<Rightarrow> nat \<Rightarrow> nat \<Rightarrow> val list \<Rightarrow> store" where
  "copyElements h newList i [] = h"
| "copyElements h newList i (el # els) =
     (case mapAt h (Some el) of
        Some m \<Rightarrow>
          (let (h1, newMap) = alloc h (MapCell (fmdrop ''sasl.jaas.config'' m))
           in copyElements (setIndex h1 newList i (VMap newMap)) newList (Suc i) els)
      | None \<Rightarrow> copyElements (setIndex h newList i el) newList (Suc i) els)"

text \<open>
  The function on the store, statement by statement. A copy loop over a whole map is
  one allocation of a cell with the same entries. The input is \<open>None\<close> for the nil map
  and an address otherwise; the result is \<open>None\<close> only when that address holds no map,
  which no Go value does. The values inside a document come from decoding JSON, which
  yields no nil map and no nil slice, so the tests \<open>ingestion == nil\<close>, \<open>scm != nil\<close>
  and \<open>scmList != nil\<close> are decided by the type assertion before them.
\<close>

definition removeSaslJaasFromTableConfig_store ::
  "store \<Rightarrow> nat option \<Rightarrow> (store \<times> nat option) option" where
  "removeSaslJaasFromTableConfig_store h input =
     (case input of
        None \<Rightarrow> Some (h, None)
      | Some a \<Rightarrow>
          (case mapAt h (Some (VMap a)) of
             None \<Rightarrow> None
           | Some inputMap \<Rightarrow>
               (let (h1, out) = alloc h (MapCell inputMap)
                in case mapAt h1 (fmlookup inputMap ''ingestionConfig'') of
                     None \<Rightarrow> Some (h1, Some out)
                   | Some ingestion \<Rightarrow>
                       (let (h2, newIngestion) = alloc h1 (MapCell ingestion);
                            h3 = setKey h2 out ''ingestionConfig'' (VMap newIngestion)
                        in case mapAt h3 (fmlookup ingestion ''streamIngestionConfig'') of
                             None \<Rightarrow> Some (h3, Some out)
                           | Some streamIngestion \<Rightarrow>
                               (let (h4, newStreamIngestion) = alloc h3 (MapCell streamIngestion);
                                    h5 = setKey h4 newIngestion ''streamIngestionConfig''
                                           (VMap newStreamIngestion)
                                in case mapAt h5 (fmlookup streamIngestion ''streamConfigMaps'') of
                                     Some scm \<Rightarrow>
                                       (let (h6, newScm) =
                                              alloc h5 (MapCell (fmdrop ''sasl.jaas.config'' scm))
                                        in Some (setKey h6 newStreamIngestion ''streamConfigMaps''
                                                   (VMap newScm), Some out))
                                   | None \<Rightarrow>
                                       (case sliceAt h5 (fmlookup streamIngestion ''streamConfigMaps'') of
                                          Some scmList \<Rightarrow>
                                            (let (h6, newList) =
                                                   alloc h5 (SliceCell (replicate (length scmList) VNull));
                                                 h7 = copyElements h6 newList 0 scmList
                                             in Some (setKey h7 newStreamIngestion ''streamConfigMaps''
                                                        (VSlice newList), Some out))
                                        | None \<Rightarrow> Some (h5, Some out)))))))"

text \<open>
  A value of the store represents a document when the cells it reaches spell the
  document out.
\<close>

inductive repr :: "store \<Rightarrow> val \<Rightarrow> json \<Rightarrow> bool" for h :: store where
  repr_null: "repr h VNull JNull"
| repr_bool: "repr h (VBool b) (JBool b)"
| repr_num: "repr h (VNum n) (JNum n)"
| repr_str: "repr h (VStr s) (JStr s)"
| repr_slice: "a < length h \<Longrightarrow> h ! a = SliceCell xs \<Longrightarrow> list_all2 (repr h) xs js \<Longrightarrow>
     repr h (VSlice a) (JArr js)"
| repr_map: "a < length h \<Longrightarrow> h ! a = MapCell m \<Longrightarrow> fmdom m = fmdom jm \<Longrightarrow>
     (\<forall>k v j. fmlookup m k = Some v \<longrightarrow> fmlookup jm k = Some j \<longrightarrow> repr h v j) \<Longrightarrow>
     repr h (VMap a) (JObj jm)"

text \<open>A store extends another when it keeps every cell of it unchanged.\<close>

definition extends :: "store \<Rightarrow> store \<Rightarrow> bool" where
  "extends h h' = (length h \<le> length h' \<and> (\<forall>a < length h. h' ! a = h ! a))"

text \<open>The entries of a map cell represent the entries of an object.\<close>

definition reprMap :: "store \<Rightarrow> (string, val) fmap \<Rightarrow> object \<Rightarrow> bool" where
  "reprMap h m jm =
     (fmdom m = fmdom jm \<and>
      (\<forall>k v j. fmlookup m k = Some v \<longrightarrow> fmlookup jm k = Some j \<longrightarrow> repr h v j))"

section \<open>Concrete inputs\<close>

text \<open>A controller that answers every request with status 200 and an empty object.\<close>

definition okRemote :: remote where
  "okRemote r = Response 200 ''{}'' (Inr (JObj fmempty))"

text \<open>A controller that answers every request with status 404.\<close>

definition notFoundRemote :: remote where
  "notFoundRemote r = Response 404 ''Not Found'' (Inl ''invalid character'')"

text \<open>A controller that fails with status 500 and a body that mentions 404.\<close>

definition serverErrorRemote :: remote where
  "serverErrorRemote r = Response 500 ''upstream answered 404'' (Inl ''invalid character'')"

text \<open>A controller that answers with status 200 and a blank body.\<close>

definition blankRemote :: remote where
  "blankRemote r = Response 200 [] (Inl ''unexpected end of JSON input'')"

text \<open>A plan for the table \<open>events\<close>, \<open>OFFLINE\<close>, whose document has neither
  \<open>tableName\<close> nor \<open>tableType\<close>.\<close>

definition eventsPlan :: TableResourceModel where
  "eventsPlan = \<lparr>ID = Unknown, TableName = Known ''events'', TableType = Known ''OFFLINE'',
     TableConfig = JsonValue (Inr (JObj (fmupd ''metadata'' (JObj fmempty) fmempty))),
     KafkaUsername = Null, KafkaPassword = Null, SaslJaasConfig = Unknown\<rparr>"

text \<open>The same plan, with a document that names the table \<open>events_REALTIME\<close>.\<close>

definition eventsMismatchPlan :: TableResourceModel where
  "eventsMismatchPlan = eventsPlan\<lparr>TableConfig :=
     JsonValue (Inr (JObj (fmupd ''tableName'' (JStr ''events_REALTIME'') fmempty)))\<rparr>"

text \<open>The same plan, with a document that names the table and gives the other type.\<close>

definition eventsWrongTypeDoc :: object where
  "eventsWrongTypeDoc =
     fmupd ''tableName'' (JStr ''events_OFFLINE'') (fmupd ''tableType'' (JStr ''REALTIME'') fmempty)"

definition eventsWrongTypePlan :: TableResourceModel where
  "eventsWrongTypePlan = eventsPlan\<lparr>TableConfig := JsonValue (Inr (JObj eventsWrongTypeDoc))\<rparr>"

text \<open>The same plan, with a document that names the table and gives the number 7 as its type.\<close>

definition eventsNumericTypeDoc :: object where
  "eventsNumericTypeDoc =
     fmupd ''tableName'' (JStr ''events_OFFLINE'') (fmupd ''tableType'' (JNum 7) fmempty)"

definition eventsNumericTypePlan :: TableResourceModel where
  "eventsNumericTypePlan = eventsPlan\<lparr>TableConfig := JsonValue (Inr (JObj eventsNumericTypeDoc))\<rparr>"

text \<open>The same plan, with a document that names the table and its type as they are declared.\<close>

definition eventsAgreeingDoc :: object where
  "eventsAgreeingDoc =
     fmupd ''tableName'' (JStr ''events_OFFLINE'') (fmupd ''tableType'' (JStr ''offline'') fmempty)"

definition eventsAgreeingPlan :: TableResourceModel where
  "eventsAgreeingPlan = eventsPlan\<lparr>TableConfig := JsonValue (Inr (JObj eventsAgreeingDoc))\<rparr>"

definition aliceRecord :: json where
  "aliceRecord = JObj (fmupd ''username'' (JStr ''alice'')
                   (fmupd ''component'' (JStr ''BROKER'') fmempty))"

definition bobRecord :: json where
  "bobRecord = JObj (fmupd ''username'' (JStr ''bob'')
                 (fmupd ''component'' (JStr ''BROKER'') fmempty))"

text \<open>A controller that answers a user lookup with a wrapper of two records.\<close>

definition twoUsersRemote :: remote where
  "twoUsersRemote r = Response 200 []
     (Inr (JObj (fmupd ''alice_BROKER'' aliceRecord (fmupd ''bob_BROKER'' bobRecord fmempty))))"

text \<open>A decoder for inputs on which \<open>fetchUser\<close> picks no record.\<close>

definition noDecode :: "json \<Rightarrow> string + PinotUser" where
  "noDecode j = Inl ''no record''"

text \<open>A table read response with both wrappers.\<close>

definition bothWrappers :: object where
  "bothWrappers = fmupd ''OFFLINE'' (JObj (fmupd ''tableName'' (JStr ''events_OFFLINE'') fmempty))
     (fmupd ''REALTIME'' (JObj (fmupd ''tableName'' (JStr ''events_REALTIME'') fmempty)) fmempty)"

definition bothWrappersRemote :: remote where
  "bothWrappersRemote r = Response 200 [] (Inr (JObj bothWrappers))"

definition nullOfflineRemote :: remote where
  "nullOfflineRemote r = Response 200 [] (Inr (JObj (fmupd ''OFFLINE'' JNull bothWrappers)))"

definition alicePlan :: UserResourceModel where
  "alicePlan = \<lparr>UserID = Unknown, UserUsername = Known ''alice'', UserPassword = Known '''',
     UserComponent = Known ''BROKER'', UserRole = Known ''USER'', UserTables = ListNull,
     UserPermissions = ListKnown [Known ''READ'']\<rparr>"

text \<open>A REALTIME document whose stream configuration is a single mapping.\<close>

definition realtimeDoc :: object where
  "realtimeDoc =
     fmupd ''tableName'' (JStr ''events_REALTIME'')
       (fmupd ''ingestionConfig''
          (JObj (fmupd ''batchIngestionConfig'' JNull
             (fmupd ''streamIngestionConfig''
                (JObj (fmupd ''streamConfigMaps''
                   (JObj (fmupd ''stream.kafka.topic.name'' (JStr ''events'') fmempty)) fmempty))
                fmempty)))
          fmempty)"

text \<open>
  A store that holds a REALTIME document whose stream configuration is a sequence of
  one mapping with the secret in it, and the document it holds at address 0.
\<close>

definition secretStore :: store where
  "secretStore =
     [MapCell (fmupd ''tableName'' (VStr ''events_REALTIME'')
        (fmupd ''ingestionConfig'' (VMap 1) fmempty)),
      MapCell (fmupd ''streamIngestionConfig'' (VMap 2) fmempty),
      MapCell (fmupd ''streamConfigMaps'' (VSlice 3) fmempty),
      SliceCell [VMap 4],
      MapCell (fmupd ''sasl.jaas.config'' (VStr ''secret'')
        (fmupd ''stream.kafka.topic.name'' (VStr ''events'') fmempty))]"

definition secretDoc :: object where
  "secretDoc =
     fmupd ''tableName'' (JStr ''events_REALTIME'')
       (fmupd ''ingestionConfig''
          (JObj (fmupd ''streamIngestionConfig''
             (JObj (fmupd ''streamConfigMaps''
                (JArr [JObj (fmupd ''sasl.jaas.config'' (JStr ''secret'')
                   (fmupd ''stream.kafka.topic.name'' (JStr ''events'') fmempty))])
                fmempty))
             fmempty))
          fmempty)"

section \<open>Results\<close>

subsection \<open>Strings\<close>

lemma HasSuffix_append: "HasSuffix (s @ suf) suf"
  by (simp add: HasSuffix_def)

lemma TrimSuffix_append: "TrimSuffix (s @ suf) suf = s"
  by (simp add: TrimSuffix_def HasSuffix_def)

lemma HasPrefix_append: "HasPrefix (sub @ rest) sub"
  by (induction sub) auto

lemma Contains_append: "Contains (pre @ sub @ post) sub"
proof (induction pre)
  case Nil
  show ?case
    by (cases "sub @ post") (use HasPrefix_append[of sub post] in auto)
next
  case (Cons c pre)
  then show ?case by simp
qed

lemma ToUpper_flavor: "ToUpper ''OFFLINE'' = ''OFFLINE''" "ToUpper ''REALTIME'' = ''REALTIME''"
  by (simp_all add: ToUpper_def upperChar_def)

lemma TrimSpace_flavor:
  "TrimSpace ''OFFLINE'' = ''OFFLINE''" "TrimSpace ''REALTIME'' = ''REALTIME''"
  by code_simp+

lemma TrimSpace_examples:
  "TrimSpace [] = []" "TrimSpace ''u'' = ''u''" "TrimSpace ''p'' = ''p''"
  "TrimSpace ''events'' = ''events''" "TrimSpace ''user_events'' = ''user_events''"
  by code_simp+

lemma TrimSpace_unicode:
  "TrimSpace ([CHR 0xC2, CHR 0xA0] @ ''events'' @ [CHR 0xE3, CHR 0x80, CHR 0x80, CHR 0x0A]) = ''events''"
  "TrimSpace [CHR 0xC2, CHR 0xA0] = []"
  "TrimSpace [CHR 0xA0, CHR 0x20] = [CHR 0xA0]"
  by code_simp+

lemma joinTableID_flavor:
  "joinTableID n ''OFFLINE'' = (if TrimSpace n = [] then [] else TrimSpace n @ ''_OFFLINE'')"
  "joinTableID n ''REALTIME'' = (if TrimSpace n = [] then [] else TrimSpace n @ ''_REALTIME'')"
  by (simp_all add: joinTableID_def ToUpper_flavor TrimSpace_flavor)

lemma EqualFold_flavor: "\<not> EqualFold [] ''OFFLINE''" "\<not> EqualFold [] ''REALTIME''"
  by (simp_all add: EqualFold_def ToUpper_def)

lemma EqualFold_examples:
  "EqualFold ''offline'' ''OFFLINE''" "\<not> EqualFold ''REALTIME'' ''OFFLINE''"
  by code_simp+

lemma joinTableID_events: "joinTableID ''events'' ''OFFLINE'' = ''events_OFFLINE''"
  by (simp add: joinTableID_flavor TrimSpace_examples)


subsection \<open>The identity codec\<close>

lemma not_OFFLINE_suffix_of_REALTIME: "\<not> HasSuffix (s @ ''_REALTIME'') ''_OFFLINE''"
  by (simp add: HasSuffix_def)

text \<open>
  \<open>joinTableID\<close> trims the name, so a name with white space at an end does not come
  back: here a name led by a no-break space (U+00A0).
\<close>

lemma joinTableID_trims_no_break_space:
  "splitTableID (joinTableID ([CHR 0xC2, CHR 0xA0] @ ''events'') ''OFFLINE'') =
     (''events'', ''OFFLINE'')"
  by code_simp

text \<open>
  C8. For a logical name that is not empty and carries no white space, ASCII or other
  Unicode white space, at its ends (the form \<open>joinTableID\<close> itself brings a name to) and
  a flavor that is \<open>OFFLINE\<close> or \<open>REALTIME\<close>, splitting the identifier joined from the
  pair gives the pair back.
\<close>

theorem splitTableID_joinTableID:
  assumes "flavor = ''OFFLINE'' \<or> flavor = ''REALTIME''"
    and "logical \<noteq> []" and "TrimSpace logical = logical"
  shows "splitTableID (joinTableID logical flavor) = (logical, flavor)"
proof -
  from assms(1) show ?thesis
  proof
    assume "flavor = ''OFFLINE''"
    with assms(2,3) show ?thesis
      using HasSuffix_append[of logical "''_OFFLINE''"] TrimSuffix_append[of logical "''_OFFLINE''"]
      by (simp add: splitTableID_def joinTableID_def ToUpper_flavor TrimSpace_flavor)
  next
    assume "flavor = ''REALTIME''"
    with assms(2,3) show ?thesis
      using HasSuffix_append[of logical "''_REALTIME''"]
        TrimSuffix_append[of logical "''_REALTIME''"]
        not_OFFLINE_suffix_of_REALTIME[of logical]
      by (simp add: splitTableID_def joinTableID_def ToUpper_flavor TrimSpace_flavor)
  qed
qed

theorem splitTableID_joinTableID_witness:
  "(''REALTIME'' = ''OFFLINE'' \<or> ''REALTIME'' = ''REALTIME'') \<and> ''user_events'' \<noteq> [] \<and>
   TrimSpace ''user_events'' = ''user_events'' \<and>
   splitTableID (joinTableID ''user_events'' ''REALTIME'') = (''user_events'', ''REALTIME'')"
  using splitTableID_joinTableID[of "''REALTIME''" "''user_events''"]
  by (simp add: TrimSpace_examples)

subsection \<open>The credential builder\<close>

lemma buildSaslJaas_username: \<open>Contains (buildSaslJaas u p) (''username="'' @ u @ ''"'')\<close>
proof -
  have \<open>buildSaslJaas u p =
      ''org.apache.kafka.common.security.scram.ScramLoginModule required '' @
      (''username="'' @ u @ ''"'') @ ('' password="'' @ p @ ''";'')\<close>
    by (simp add: buildSaslJaas_def)
  then show ?thesis
    using Contains_append by metis
qed

lemma buildSaslJaas_password: \<open>Contains (buildSaslJaas u p) (''password="'' @ p @ ''"'')\<close>
proof -
  have \<open>buildSaslJaas u p =
      (''org.apache.kafka.common.security.scram.ScramLoginModule required username="'' @ u @
         ''" '') @ (''password="'' @ p @ ''"'') @ '';''\<close>
    by (simp add: buildSaslJaas_def)
  then show ?thesis
    using Contains_append by metis
qed

text \<open>
  C5, as amended. Given a username \<open>u\<close> and a password \<open>p\<close>, neither blank (empty once
  its leading and trailing Unicode white space is trimmed), the builder returns the
  credential string, which contains \<open>username="u"\<close> and \<open>password="p"\<close>. Given exactly
  one of the two attributes (the other null) it fails, and given both attributes with
  one of them blank it fails. Given both attributes null it returns no credential and no
  error.
\<close>

theorem buildSaslIfProvided_cases:
  \<open>(TrimSpace u \<noteq> [] \<and> TrimSpace p \<noteq> [] \<longrightarrow>
      buildSaslIfProvided (Known u) (Known p) = Inr (buildSaslJaas u p) \<and>
      Contains (buildSaslJaas u p) (''username="'' @ u @ ''"'') \<and>
      Contains (buildSaslJaas u p) (''password="'' @ p @ ''"'')) \<and>
   (IsNull a \<noteq> IsNull b \<longrightarrow>
      buildSaslIfProvided a b =
        Inl ''both kafka_username and kafka_password must be provided together'') \<and>
   (\<not> IsNull c \<and> \<not> IsNull d \<and>
      (TrimSpace (ValueString c) = [] \<or> TrimSpace (ValueString d) = []) \<longrightarrow>
      buildSaslIfProvided c d = Inl ''both kafka_username and kafka_password must be non-empty'') \<and>
   buildSaslIfProvided Null Null = Inr []\<close>
proof -
  have built: "TrimSpace u \<noteq> [] \<and> TrimSpace p \<noteq> [] \<longrightarrow>
      buildSaslIfProvided (Known u) (Known p) = Inr (buildSaslJaas u p)"
    by (simp add: buildSaslIfProvided_def)
  have one: "IsNull a \<noteq> IsNull b \<longrightarrow> buildSaslIfProvided a b =
      Inl ''both kafka_username and kafka_password must be provided together''"
    by (auto simp: buildSaslIfProvided_def)
  have blank: "\<not> IsNull c \<and> \<not> IsNull d \<and>
      (TrimSpace (ValueString c) = [] \<or> TrimSpace (ValueString d) = []) \<longrightarrow>
      buildSaslIfProvided c d = Inl ''both kafka_username and kafka_password must be non-empty''"
    by (auto simp: buildSaslIfProvided_def)
  have none: "buildSaslIfProvided Null Null = Inr []"
    by (simp add: buildSaslIfProvided_def)
  from built one blank none buildSaslJaas_username[of u p] buildSaslJaas_password[of u p]
  show ?thesis by blast
qed

theorem buildSaslIfProvided_cases_witness:
  \<open>buildSaslIfProvided (Known ''u'') (Known ''p'') =
      Inr ''org.apache.kafka.common.security.scram.ScramLoginModule required username="u" password="p";'' \<and>
   Contains (buildSaslJaas ''u'' ''p'') ''username="u"'' \<and>
   Contains (buildSaslJaas ''u'' ''p'') ''password="p"'' \<and>
   buildSaslIfProvided (Known ''u'') Null =
      Inl ''both kafka_username and kafka_password must be provided together'' \<and>
   buildSaslIfProvided (Known ''u'') (Known '''') =
      Inl ''both kafka_username and kafka_password must be non-empty'' \<and>
   buildSaslIfProvided Null (Known ''p'') =
      Inl ''both kafka_username and kafka_password must be provided together'' \<and>
   buildSaslIfProvided (Known ''u'') (Known [CHR 0xC2, CHR 0xA0]) =
      Inl ''both kafka_username and kafka_password must be non-empty''\<close>
  using buildSaslIfProvided_cases[of "''u''" "''p''" "Known ''u''" Null "Known ''u''" "Known ''''"]
    buildSaslIfProvided_cases[of "''u''" "''p''" Null "Known ''p''" "Known ''u''"
      "Known [CHR 0xC2, CHR 0xA0]"]
  by (simp add: TrimSpace_examples TrimSpace_unicode buildSaslJaas_def)

text \<open>
  C5 as stated fails where both attributes are given and empty: the builder does not
  return the empty credential there, it fails.
\<close>

theorem buildSaslIfProvided_both_empty_counterexample:
  "buildSaslIfProvided (Known '''') (Known '''') =
     Inl ''both kafka_username and kafka_password must be non-empty''"
  by (simp add: buildSaslIfProvided_def TrimSpace_examples)

subsection \<open>Unwrapping a table read response\<close>

text \<open>
  C9. When the controller answers a table read with an object, a wrapper key counts only
  when its value is an object: the value under \<open>OFFLINE\<close> is returned when it is an
  object, whatever \<open>REALTIME\<close> holds; otherwise the value under \<open>REALTIME\<close> when that
  is an object; otherwise the response itself.
\<close>

theorem GetTable_unwrap:
  assumes "srv (GetTableRequest name) = Response status body (Inr (JObj response))"
    and "status < 400"
  shows "(fmlookup response ''OFFLINE'' = Some (JObj offlineConfig) \<longrightarrow>
            GetTable srv name = Inr (Map offlineConfig)) \<and>
         (asMap (fmlookup response ''OFFLINE'') = None \<and>
          fmlookup response ''REALTIME'' = Some (JObj realtimeConfig) \<longrightarrow>
            GetTable srv name = Inr (Map realtimeConfig)) \<and>
         (asMap (fmlookup response ''OFFLINE'') = None \<and>
          asMap (fmlookup response ''REALTIME'') = None \<longrightarrow>
            GetTable srv name = Inr (Map response))"
  using assms by (simp add: GetTable_def)

theorem GetTable_unwrap_witness:
  "fmlookup bothWrappers ''OFFLINE'' = Some (JObj (fmupd ''tableName'' (JStr ''events_OFFLINE'') fmempty)) \<and>
   fmlookup bothWrappers ''REALTIME'' = Some (JObj (fmupd ''tableName'' (JStr ''events_REALTIME'') fmempty)) \<and>
   GetTable bothWrappersRemote ''events_OFFLINE'' =
     Inr (Map (fmupd ''tableName'' (JStr ''events_OFFLINE'') fmempty)) \<and>
   GetTable nullOfflineRemote ''events_REALTIME'' =
     Inr (Map (fmupd ''tableName'' (JStr ''events_REALTIME'') fmempty)) \<and>
   GetTable okRemote ''events_OFFLINE'' = Inr (Map fmempty)"
  using GetTable_unwrap[where srv = bothWrappersRemote and name = "''events_OFFLINE''"
          and status = 200 and body = "[]" and response = bothWrappers
          and offlineConfig = "fmupd ''tableName'' (JStr ''events_OFFLINE'') fmempty"]
        GetTable_unwrap[where srv = nullOfflineRemote and name = "''events_REALTIME''"
          and status = 200 and body = "[]" and response = "fmupd ''OFFLINE'' JNull bothWrappers"
          and realtimeConfig = "fmupd ''tableName'' (JStr ''events_REALTIME'') fmempty"]
        GetTable_unwrap[where srv = okRemote and name = "''events_OFFLINE''"
          and status = 200 and body = "''{}''" and response = fmempty]
  by (simp add: bothWrappersRemote_def nullOfflineRemote_def bothWrappers_def okRemote_def)

subsection \<open>Creating a user\<close>

text \<open>
  C10. When the planned password is null or the empty string, \<open>Create\<close> of a user
  returns the missing-password error and makes no request. Whatever the plan, a create
  request that is sent carries the planned password, and that password is not empty.
\<close>

theorem UserResource_Create_password:
  "(IsNull (UserPassword data) \<or> ValueString (UserPassword data) = [] \<longrightarrow>
      UserResource_Create decode srv data =
        \<lparr>Diagnostics = [DiagError ''Missing password''
             ''Creating a Pinot user requires a non-empty `password`.''],
         State = None, Requests = []\<rparr>) \<and>
   (CreateUserRequest payload \<in> set (Requests (UserResource_Create decode srv data)) \<longrightarrow>
      Password payload \<noteq> [] \<and> Password payload = ValueString (UserPassword data))"
  by (auto simp: UserResource_Create_def Let_def split: option.splits)

theorem UserResource_Create_password_witness:
  "ValueString (UserPassword alicePlan) = [] \<and>
   UserResource_Create noDecode okRemote alicePlan =
     \<lparr>Diagnostics = [DiagError ''Missing password''
          ''Creating a Pinot user requires a non-empty `password`.''],
      State = None, Requests = []\<rparr> \<and>
   CreateUserRequest \<lparr>Username = ''alice'', Password = ''s3cret'', Component = ''BROKER'',
       Role = ''USER'', Tables = None, Permissions = Some [''READ'']\<rparr>
     \<in> set (Requests (UserResource_Create noDecode okRemote
                (alicePlan\<lparr>UserPassword := Known ''s3cret''\<rparr>)))"
  using UserResource_Create_password[where data = alicePlan and decode = noDecode
          and srv = okRemote]
        UserResource_Create_password[where data = "alicePlan\<lparr>UserPassword := Known ''s3cret''\<rparr>"
          and decode = noDecode and srv = okRemote
          and payload = "\<lparr>Username = ''alice'', Password = ''s3cret'', Component = ''BROKER'',
             Role = ''USER'', Tables = None, Permissions = Some [''READ'']\<rparr>"]
  by (simp add: alicePlan_def UserResource_Create_def HasError_def CreateUser_def okRemote_def
      Let_def)

subsection \<open>Identity validation of a table document\<close>

lemma injectIfProvided_tableName:
  assumes "injectIfProvided doc sasl = Some sent"
  shows "index sent ''tableName'' = index doc ''tableName''"
proof (cases "sasl = []")
  case True
  with assms show ?thesis by simp
next
  case False
  then obtain c cs where sasl: "sasl = c # cs" by (cases sasl) auto
  show ?thesis
  proof (cases doc)
    case NilMap
    with assms sasl show ?thesis by simp
  next
    case (Map m)
    with assms sasl have "sent = Map (injectKafkaSasl m sasl)" by auto
    with Map show ?thesis by (simp add: injectKafkaSasl_def Let_def)
  qed
qed

lemma Create_name_mismatch:
  assumes "Unmarshal (TableConfig data) = Inr doc"
    and "asString (index doc ''tableName'') \<noteq>
           joinTableID (ValueString (TableName data)) (ValueString (TableType data))"
  shows "TableResource_Create srv data =
           Returns \<lparr>Diagnostics = [tableNameMismatch
              (joinTableID (ValueString (TableName data)) (ValueString (TableType data)))],
              State = None, Requests = []\<rparr>"
  using assms by (simp add: TableResource_Create_def Let_def)

lemma Create_type_mismatch:
  assumes "Unmarshal (TableConfig data) = Inr doc"
    and "asString (index doc ''tableName'') =
           joinTableID (ValueString (TableName data)) (ValueString (TableType data))"
    and "\<not> EqualFold (asString (index doc ''tableType'')) (ValueString (TableType data))"
  shows "TableResource_Create srv data =
           Returns \<lparr>Diagnostics = [tableTypeMismatch (ValueString (TableType data))],
              State = None, Requests = []\<rparr>"
  using assms by (simp add: TableResource_Create_def Let_def)

lemma Create_sends:
  assumes "Unmarshal (TableConfig data) = Inr doc"
    and "asString (index doc ''tableName'') =
           joinTableID (ValueString (TableName data)) (ValueString (TableType data))"
    and "EqualFold (asString (index doc ''tableType'')) (ValueString (TableType data))"
    and "buildSaslIfProvided (KafkaUsername data) (KafkaPassword data) = Inr sasl"
    and "injectIfProvided doc sasl = Some sent"
  shows "\<exists>r. TableResource_Create srv data = Returns r \<and> Requests r = [CreateTableRequest sent]"
  using assms by (simp add: TableResource_Create_def Let_def split: option.splits)

lemma Create_absent:
  assumes "Unmarshal (TableConfig data) = Inr doc"
    and "ValueString (TableType data) = ''OFFLINE'' \<or> ValueString (TableType data) = ''REALTIME''"
    and "index doc ''tableName'' = None" and "index doc ''tableType'' = None"
  shows "TableResource_Create srv data =
           Returns \<lparr>Diagnostics =
              [if joinTableID (ValueString (TableName data)) (ValueString (TableType data)) = []
               then tableTypeMismatch (ValueString (TableType data))
               else tableNameMismatch
                 (joinTableID (ValueString (TableName data)) (ValueString (TableType data)))],
              State = None, Requests = []\<rparr>"
  using assms EqualFold_flavor by (auto simp: TableResource_Create_def Let_def)

lemma Update_name_mismatch:
  assumes "Unmarshal (TableConfig data) = Inr doc"
    and "asString (index doc ''tableName'') \<noteq> []"
    and "asString (index doc ''tableName'') \<noteq>
           joinTableID (ValueString (TableName data)) (ValueString (TableType data))"
  shows "TableResource_Update srv prior data =
           Returns \<lparr>Diagnostics = [tableNameMismatch
              (joinTableID (ValueString (TableName data)) (ValueString (TableType data)))],
              State = Some prior, Requests = []\<rparr>"
  using assms by (simp add: TableResource_Update_def Let_def)

lemma Update_type_mismatch:
  assumes "Unmarshal (TableConfig data) = Inr doc"
    and "asString (index doc ''tableName'') = [] \<or>
         asString (index doc ''tableName'') =
           joinTableID (ValueString (TableName data)) (ValueString (TableType data))"
    and "asString (index doc ''tableType'') \<noteq> []"
    and "\<not> EqualFold (asString (index doc ''tableType'')) (ValueString (TableType data))"
  shows "TableResource_Update srv prior data =
           Returns \<lparr>Diagnostics = [tableTypeMismatch (ValueString (TableType data))],
              State = Some prior, Requests = []\<rparr>"
  using assms by (auto simp: TableResource_Update_def Let_def)

lemma Update_not_sent:
  assumes "Unmarshal (TableConfig data) = Inr doc"
    and "asString (index doc ''tableType'') = [] \<or>
         EqualFold (asString (index doc ''tableType'')) (ValueString (TableType data))"
    and "\<forall>name. index doc ''tableName'' \<noteq> Some (JStr name)"
    and "buildSaslIfProvided (KafkaUsername data) (KafkaPassword data) = Inr sasl"
    and "injectIfProvided doc sasl = Some sent"
  shows "TableResource_Update srv prior data =
           Returns \<lparr>Diagnostics = [DiagError ''Error Updating Pinot Table''
                ''Could not update table, unexpected error: table name not found''],
              State = Some prior, Requests = []\<rparr>"
proof -
  from assms(3) have tn: "asString (index doc ''tableName'') = []"
    by (cases "index doc ''tableName''" rule: asString.cases) auto
  from assms(3) injectIfProvided_tableName[OF assms(5)]
  have "\<forall>name. index sent ''tableName'' \<noteq> Some (JStr name)" by simp
  then have "UpdateTable srv sent = (Some ''table name not found'', [])"
    by (auto simp: UpdateTable_def split: option.splits json.splits)
  with assms tn show ?thesis
    by (auto simp: TableResource_Update_def Let_def)
qed

lemma Update_sends:
  assumes "Unmarshal (TableConfig data) = Inr doc"
    and "index doc ''tableName'' = Some (JStr name)"
    and "name = [] \<or>
         name = joinTableID (ValueString (TableName data)) (ValueString (TableType data))"
    and "asString (index doc ''tableType'') = [] \<or>
         EqualFold (asString (index doc ''tableType'')) (ValueString (TableType data))"
    and "buildSaslIfProvided (KafkaUsername data) (KafkaPassword data) = Inr sasl"
    and "injectIfProvided doc sasl = Some sent"
  shows "\<exists>r rest. TableResource_Update srv prior data = Returns r \<and>
           Requests r = UpdateTableRequest name sent # rest"
proof -
  from assms(2) injectIfProvided_tableName[OF assms(6)]
  have "index sent ''tableName'' = Some (JStr name)" by simp
  then have "UpdateTable srv sent =
      (errorOf (doRequest (srv (UpdateTableRequest name sent))), [UpdateTableRequest name sent])"
    by (simp add: UpdateTable_def)
  with assms show ?thesis
    by (auto simp: TableResource_Update_def Let_def split: option.splits)
qed


lemma mismatch_distinct:
  "tableNameMismatch f \<noteq> DiagError ''Kafka Credentials Incomplete'' e"
  "tableTypeMismatch t \<noteq> DiagError ''Kafka Credentials Incomplete'' e"
  "tableNameMismatch f \<noteq> DiagError ''Error Creating Pinot Table'' e"
  "tableTypeMismatch t \<noteq> DiagError ''Error Creating Pinot Table'' e"
  "tableNameMismatch f \<noteq> DiagError ''Error Updating Pinot Table'' e"
  "tableTypeMismatch t \<noteq> DiagError ''Error Updating Pinot Table'' e"
  "tableNameMismatch f \<noteq> DiagWarning s e"
  "tableTypeMismatch t \<noteq> DiagWarning s e"
  by (simp_all add: tableNameMismatch_def tableTypeMismatch_def)

lemma Create_passes:
  assumes "Unmarshal (TableConfig data) = Inr doc"
    and "asString (index doc ''tableName'') =
           joinTableID (ValueString (TableName data)) (ValueString (TableType data))"
    and "EqualFold (asString (index doc ''tableType'')) (ValueString (TableType data))"
    and "TableResource_Create srv data = Returns r"
  shows "tableNameMismatch f \<notin> set (Diagnostics r) \<and> tableTypeMismatch t \<notin> set (Diagnostics r)"
  using assms
  by (auto simp: TableResource_Create_def Let_def mismatch_distinct
      split: sum.splits option.splits)

lemma Update_passes:
  assumes "Unmarshal (TableConfig data) = Inr doc"
    and "asString (index doc ''tableName'') = [] \<or>
         asString (index doc ''tableName'') =
           joinTableID (ValueString (TableName data)) (ValueString (TableType data))"
    and "asString (index doc ''tableType'') = [] \<or>
         EqualFold (asString (index doc ''tableType'')) (ValueString (TableType data))"
    and "TableResource_Update srv prior data = Returns r"
  shows "tableNameMismatch f \<notin> set (Diagnostics r) \<and> tableTypeMismatch t \<notin> set (Diagnostics r)"
proof -
  from assms(2,3) have guards:
    "\<not> (asString (index doc ''tableName'') \<noteq> [] \<and>
        asString (index doc ''tableName'') \<noteq>
          joinTableID (ValueString (TableName data)) (ValueString (TableType data)))"
    "\<not> (asString (index doc ''tableType'') \<noteq> [] \<and>
        \<not> EqualFold (asString (index doc ''tableType'')) (ValueString (TableType data)))"
    by auto
  from assms(4) show ?thesis
    unfolding TableResource_Update_def Let_def
    by (simp only: assms(1) guards sum.case if_False)
      (auto simp: mismatch_distinct split: sum.splits option.splits prod.splits)
qed

text \<open>
  C1, as amended. Let the planned document decode to \<open>doc\<close>, let the declared type be
  \<open>OFFLINE\<close> or \<open>REALTIME\<close>, and let the composite identity be the identifier that
  \<open>joinTableID\<close> forms from the declared name and type. The embedded name and type are
  read with a type assertion, so a field that is absent or not a string reads as the
  empty string.

  \<open>Create\<close> returns the name mismatch whenever the embedded name is not the composite
  identity, and the type mismatch whenever the name agrees and the embedded type does not
  equal the declared type up to letter case; both without a request. In particular it
  rejects a document in which both fields are absent. When both agree, \<open>Create\<close> reports
  no identity mismatch, and when the credentials build it sends the document.

  \<open>Update\<close> returns the name mismatch when the embedded name is a non-empty string other
  than the composite identity, and the type mismatch when the name passes and the embedded
  type is a non-empty string that differs from the declared type beyond letter case; both
  without a request. Every other document passes its validation, and \<open>Update\<close> reports no
  identity mismatch: a field that is absent, not a string or empty is tolerated. When the
  credentials build, a document that passed and holds a string \<open>tableName\<close> is sent; one
  that holds none is not sent, and \<open>Update\<close> fails with \<open>table name not found\<close> without
  a request.
\<close>

theorem identity_validation:
  assumes "Unmarshal (TableConfig data) = Inr doc"
    and "ValueString (TableType data) = ''OFFLINE'' \<or> ValueString (TableType data) = ''REALTIME''"
  shows
    "(asString (index doc ''tableName'') \<noteq>
        joinTableID (ValueString (TableName data)) (ValueString (TableType data)) \<longrightarrow>
      TableResource_Create srv data =
        Returns \<lparr>Diagnostics = [tableNameMismatch
           (joinTableID (ValueString (TableName data)) (ValueString (TableType data)))],
           State = None, Requests = []\<rparr>) \<and>
     (asString (index doc ''tableName'') =
        joinTableID (ValueString (TableName data)) (ValueString (TableType data)) \<and>
      \<not> EqualFold (asString (index doc ''tableType'')) (ValueString (TableType data)) \<longrightarrow>
      TableResource_Create srv data =
        Returns \<lparr>Diagnostics = [tableTypeMismatch (ValueString (TableType data))],
           State = None, Requests = []\<rparr>) \<and>
     (index doc ''tableName'' = None \<and> index doc ''tableType'' = None \<longrightarrow>
      TableResource_Create srv data =
        Returns \<lparr>Diagnostics =
           [if joinTableID (ValueString (TableName data)) (ValueString (TableType data)) = []
            then tableTypeMismatch (ValueString (TableType data))
            else tableNameMismatch
              (joinTableID (ValueString (TableName data)) (ValueString (TableType data)))],
           State = None, Requests = []\<rparr>) \<and>
     (asString (index doc ''tableName'') =
        joinTableID (ValueString (TableName data)) (ValueString (TableType data)) \<and>
      EqualFold (asString (index doc ''tableType'')) (ValueString (TableType data)) \<and>
      buildSaslIfProvided (KafkaUsername data) (KafkaPassword data) = Inr sasl \<and>
      injectIfProvided doc sasl = Some sent \<longrightarrow>
      (\<exists>r. TableResource_Create srv data = Returns r \<and>
           Requests r = [CreateTableRequest sent])) \<and>
     (asString (index doc ''tableName'') \<noteq> [] \<and>
      asString (index doc ''tableName'') \<noteq>
        joinTableID (ValueString (TableName data)) (ValueString (TableType data)) \<longrightarrow>
      TableResource_Update srv prior data =
        Returns \<lparr>Diagnostics = [tableNameMismatch
           (joinTableID (ValueString (TableName data)) (ValueString (TableType data)))],
           State = Some prior, Requests = []\<rparr>) \<and>
     ((asString (index doc ''tableName'') = [] \<or>
       asString (index doc ''tableName'') =
         joinTableID (ValueString (TableName data)) (ValueString (TableType data))) \<and>
      asString (index doc ''tableType'') \<noteq> [] \<and>
      \<not> EqualFold (asString (index doc ''tableType'')) (ValueString (TableType data)) \<longrightarrow>
      TableResource_Update srv prior data =
        Returns \<lparr>Diagnostics = [tableTypeMismatch (ValueString (TableType data))],
           State = Some prior, Requests = []\<rparr>) \<and>
     ((\<forall>name. index doc ''tableName'' \<noteq> Some (JStr name)) \<and>
      (asString (index doc ''tableType'') = [] \<or>
       EqualFold (asString (index doc ''tableType'')) (ValueString (TableType data))) \<and>
      buildSaslIfProvided (KafkaUsername data) (KafkaPassword data) = Inr sasl \<and>
      injectIfProvided doc sasl = Some sent \<longrightarrow>
      TableResource_Update srv prior data =
        Returns \<lparr>Diagnostics = [DiagError ''Error Updating Pinot Table''
             ''Could not update table, unexpected error: table name not found''],
           State = Some prior, Requests = []\<rparr>) \<and>
     (index doc ''tableName'' = Some (JStr name) \<and>
      (name = [] \<or>
       name = joinTableID (ValueString (TableName data)) (ValueString (TableType data))) \<and>
      (asString (index doc ''tableType'') = [] \<or>
       EqualFold (asString (index doc ''tableType'')) (ValueString (TableType data))) \<and>
      buildSaslIfProvided (KafkaUsername data) (KafkaPassword data) = Inr sasl \<and>
      injectIfProvided doc sasl = Some sent \<longrightarrow>
      (\<exists>r rest. TableResource_Update srv prior data = Returns r \<and>
           Requests r = UpdateTableRequest name sent # rest)) \<and>
     (asString (index doc ''tableName'') =
        joinTableID (ValueString (TableName data)) (ValueString (TableType data)) \<and>
      EqualFold (asString (index doc ''tableType'')) (ValueString (TableType data)) \<longrightarrow>
      (\<forall>r. TableResource_Create srv data = Returns r \<longrightarrow>
           tableNameMismatch
             (joinTableID (ValueString (TableName data)) (ValueString (TableType data)))
             \<notin> set (Diagnostics r) \<and>
           tableTypeMismatch (ValueString (TableType data)) \<notin> set (Diagnostics r))) \<and>
     ((asString (index doc ''tableName'') = [] \<or>
       asString (index doc ''tableName'') =
         joinTableID (ValueString (TableName data)) (ValueString (TableType data))) \<and>
      (asString (index doc ''tableType'') = [] \<or>
       EqualFold (asString (index doc ''tableType'')) (ValueString (TableType data))) \<longrightarrow>
      (\<forall>r. TableResource_Update srv prior data = Returns r \<longrightarrow>
           tableNameMismatch
             (joinTableID (ValueString (TableName data)) (ValueString (TableType data)))
             \<notin> set (Diagnostics r) \<and>
           tableTypeMismatch (ValueString (TableType data)) \<notin> set (Diagnostics r)))"
proof -
  note create = Create_name_mismatch[OF assms(1), of srv] Create_type_mismatch[OF assms(1), of srv]
    Create_absent[OF assms, of srv] Create_sends[OF assms(1), of sasl sent srv]
  note update = Update_name_mismatch[OF assms(1), of srv prior]
    Update_type_mismatch[OF assms(1), of srv prior]
    Update_not_sent[OF assms(1), of sasl sent srv prior]
    Update_sends[OF assms(1), of name sasl sent srv prior]
  have create_passes:
    "asString (index doc ''tableName'') =
        joinTableID (ValueString (TableName data)) (ValueString (TableType data)) \<and>
      EqualFold (asString (index doc ''tableType'')) (ValueString (TableType data)) \<longrightarrow>
      (\<forall>r. TableResource_Create srv data = Returns r \<longrightarrow>
           tableNameMismatch
             (joinTableID (ValueString (TableName data)) (ValueString (TableType data)))
             \<notin> set (Diagnostics r) \<and>
           tableTypeMismatch (ValueString (TableType data)) \<notin> set (Diagnostics r))"
    using Create_passes[OF assms(1)] by blast
  have update_passes:
    "(asString (index doc ''tableName'') = [] \<or>
       asString (index doc ''tableName'') =
         joinTableID (ValueString (TableName data)) (ValueString (TableType data))) \<and>
      (asString (index doc ''tableType'') = [] \<or>
       EqualFold (asString (index doc ''tableType'')) (ValueString (TableType data))) \<longrightarrow>
      (\<forall>r. TableResource_Update srv prior data = Returns r \<longrightarrow>
           tableNameMismatch
             (joinTableID (ValueString (TableName data)) (ValueString (TableType data)))
             \<notin> set (Diagnostics r) \<and>
           tableTypeMismatch (ValueString (TableType data)) \<notin> set (Diagnostics r))"
    using Update_passes[OF assms(1)] by blast
  from create update create_passes update_passes show ?thesis
    by blast
qed

theorem identity_validation_witness:
  "TableResource_Create okRemote eventsMismatchPlan =
     Returns \<lparr>Diagnostics = [tableNameMismatch ''events_OFFLINE''], State = None, Requests = []\<rparr> \<and>
   TableResource_Update okRemote eventsPlan eventsMismatchPlan =
     Returns \<lparr>Diagnostics = [tableNameMismatch ''events_OFFLINE''], State = Some eventsPlan,
       Requests = []\<rparr> \<and>
   TableResource_Create okRemote eventsWrongTypePlan =
     Returns \<lparr>Diagnostics = [tableTypeMismatch ''OFFLINE''], State = None, Requests = []\<rparr> \<and>
   TableResource_Update okRemote eventsPlan eventsWrongTypePlan =
     Returns \<lparr>Diagnostics = [tableTypeMismatch ''OFFLINE''], State = Some eventsPlan,
       Requests = []\<rparr> \<and>
   TableResource_Create okRemote eventsPlan =
     Returns \<lparr>Diagnostics = [tableNameMismatch ''events_OFFLINE''], State = None, Requests = []\<rparr> \<and>
   TableResource_Update okRemote eventsPlan eventsPlan =
     Returns \<lparr>Diagnostics = [DiagError ''Error Updating Pinot Table''
          ''Could not update table, unexpected error: table name not found''],
       State = Some eventsPlan, Requests = []\<rparr> \<and>
   (\<exists>r. TableResource_Create okRemote eventsAgreeingPlan = Returns r \<and>
        Requests r = [CreateTableRequest (Map eventsAgreeingDoc)]) \<and>
   (\<exists>r rest. TableResource_Update okRemote eventsPlan eventsAgreeingPlan = Returns r \<and>
        Requests r = UpdateTableRequest ''events_OFFLINE'' (Map eventsAgreeingDoc) # rest)"
  using identity_validation[where data = eventsMismatchPlan and srv = okRemote
          and prior = eventsPlan
          and doc = "Map (fmupd ''tableName'' (JStr ''events_REALTIME'') fmempty)"
          and sasl = "[]" and name = "''events_REALTIME''"
          and sent = "Map (fmupd ''tableName'' (JStr ''events_REALTIME'') fmempty)"]
        identity_validation[where data = eventsWrongTypePlan and srv = okRemote
          and prior = eventsPlan and doc = "Map eventsWrongTypeDoc" and sasl = "[]"
          and sent = "Map eventsWrongTypeDoc" and name = "''events_OFFLINE''"]
        identity_validation[where data = eventsPlan and srv = okRemote and prior = eventsPlan
          and doc = "Map (fmupd ''metadata'' (JObj fmempty) fmempty)" and sasl = "[]"
          and sent = "Map (fmupd ''metadata'' (JObj fmempty) fmempty)" and name = "[]"]
        identity_validation[where data = eventsAgreeingPlan and srv = okRemote
          and prior = eventsPlan and doc = "Map eventsAgreeingDoc" and sasl = "[]"
          and sent = "Map eventsAgreeingDoc" and name = "''events_OFFLINE''"]
  by (simp add: eventsMismatchPlan_def eventsWrongTypePlan_def eventsAgreeingPlan_def
      eventsPlan_def eventsWrongTypeDoc_def eventsAgreeingDoc_def joinTableID_events
      EqualFold_examples EqualFold_flavor buildSaslIfProvided_def)

text \<open>
  C1 as stated fails on both sides. In \<open>Create\<close>, a document with neither \<open>tableName\<close> nor
  \<open>tableType\<close> is not accepted: it is rejected with the name mismatch before any request.
  In \<open>Update\<close>, a document whose \<open>tableType\<close> is present and disagrees with the declared
  type \<open>OFFLINE\<close>, being the number 7, is not rejected: it is sent to the controller.
\<close>

theorem identity_validation_counterexample:
  "TableResource_Create okRemote eventsPlan =
     Returns \<lparr>Diagnostics = [DiagError ''Table Name Mismatch''
                 ''The table configuration name must be events_OFFLINE''],
              State = None, Requests = []\<rparr> \<and>
   index (Map eventsNumericTypeDoc) ''tableType'' = Some (JNum 7) \<and>
   (\<exists>r. TableResource_Update okRemote eventsPlan eventsNumericTypePlan = Returns r \<and>
        Diagnostics r = [] \<and>
        Requests r = [UpdateTableRequest ''events_OFFLINE'' (Map eventsNumericTypeDoc),
                      ReloadTableRequest ''events'' ''OFFLINE''])"
  by (simp add: TableResource_Create_def TableResource_Update_def eventsPlan_def
      eventsNumericTypePlan_def eventsNumericTypeDoc_def joinTableID_events Let_def
      tableNameMismatch_def buildSaslIfProvided_def UpdateTable_def ReloadTable_def
      okRemote_def ToUpper_flavor)

subsection \<open>Reading a resource that is gone\<close>

lemma showNat_404: "showNat 404 = ''404''"
  by code_simp

lemma showNat_500: "showNat 500 = ''500''"
  by code_simp

lemma doRequest_notFound: "doRequest (notFoundRemote r) = Inl ''API error (status 404): Not Found''"
  by (simp add: notFoundRemote_def showNat_404)

lemma doRequest_serverError:
  "doRequest (serverErrorRemote r) = Inl ''API error (status 500): upstream answered 404''"
  by (simp add: serverErrorRemote_def showNat_500)

text \<open>
  C2, on the code. Against a controller that answers 404, \<open>Read\<close> of a schema and
  \<open>Read\<close> of a user report an error and keep the state; only \<open>Read\<close> of a table drops
  it. \<open>Read\<close> of a table also drops the state on a 500 whose body mentions 404.
\<close>

theorem Read_not_found:
  "SchemaResource_Read notFoundRemote sdata =
     \<lparr>Diagnostics = [DiagError ''Error Reading Pinot Schema''
        (''Could not read schema ID '' @ ValueString (SchemaID sdata) @
           '': API error (status 404): Not Found'')],
      State = Some sdata, Requests = [GetSchemaRequest (ValueString (SchemaName sdata))]\<rparr> \<and>
   UserResource_Read decode notFoundRemote udata =
     \<lparr>Diagnostics = [DiagError ''Error Reading Pinot User''
        (''Could not read user '' @ Quote (ValueString (UserUsername udata)) @
           '': API error (status 404): Not Found'')],
      State = Some udata,
      Requests = [GetUserRequest (ValueString (UserUsername udata))
                    (ToUpper (ValueString (UserComponent udata)))]\<rparr> \<and>
   TableResource_Read notFoundRemote tdata =
     \<lparr>Diagnostics = [], State = None, Requests = [GetTableRequest (ValueString (ID tdata))]\<rparr> \<and>
   TableResource_Read serverErrorRemote tdata =
     \<lparr>Diagnostics = [], State = None, Requests = [GetTableRequest (ValueString (ID tdata))]\<rparr>"
  by (simp add: SchemaResource_Read_def GetSchema_def UserResource_Read_def fetchUser_def
      GetUser_def TableResource_Read_def GetTable_def doRequest_notFound doRequest_serverError)

subsection \<open>Picking the user record out of a lookup response\<close>

text \<open>
  C6, on the code. The wrapper key that \<open>fetchUser\<close> looks for is built from the
  component as it was declared. With the component declared in lower case and a
  response of two records keyed by the upper-case component, no rule applies and the
  lookup fails; with the component declared in upper case the record under the key is
  the result.
\<close>

theorem fetchUser_lower_case_component:
  \<open>fetchUser decode twoUsersRemote ''alice'' ''broker'' =
     Inl ''unexpected user response; neither plain object nor wrapper with key "alice_broker"'' \<and>
   fetchUser decode twoUsersRemote ''alice'' ''BROKER'' = decode aliceRecord\<close>
  by (simp add: fetchUser_def GetUser_def twoUsersRemote_def Quote_def quoteChar_def
      fcard_finsert_if)

text \<open>
  C7, on the code. \<open>GetUser\<close> and \<open>fetchUser\<close> have no outcome for a user that is not
  found. When the controller answers a user lookup with the empty object, no rule of
  \<open>fetchUser\<close> applies and the lookup fails with the unexpected-response error; when the
  body is empty or blank, decoding it fails and the lookup fails with the unmarshal
  error.
\<close>

theorem fetchUser_empty:
  assumes "status < 400"
  shows "(srv (GetUserRequest username (ToUpper component)) =
            Response status body (Inr (JObj fmempty)) \<longrightarrow>
          fetchUser decode srv username component =
            Inl (''unexpected user response; neither plain object nor wrapper with key '' @
                 Quote (username @ ''_'' @ component))) \<and>
         (srv (GetUserRequest username (ToUpper component)) = Response status body (Inl e) \<longrightarrow>
          fetchUser decode srv username component = Inl (''failed to unmarshal user JSON: '' @ e))"
  using assms by (simp add: fetchUser_def GetUser_def fcard_fempty)

theorem fetchUser_empty_witness:
  \<open>(200::nat) < 400 \<and>
   fetchUser noDecode okRemote ''alice'' ''BROKER'' =
     Inl ''unexpected user response; neither plain object nor wrapper with key "alice_BROKER"'' \<and>
   fetchUser noDecode blankRemote ''alice'' ''BROKER'' =
     Inl ''failed to unmarshal user JSON: unexpected end of JSON input''\<close>
  using fetchUser_empty[where status = 200 and srv = okRemote and username = "''alice''"
          and component = "''BROKER''" and body = "''{}''" and decode = noDecode]
        fetchUser_empty[where status = 200 and srv = blankRemote and username = "''alice''"
          and component = "''BROKER''" and body = "[]" and decode = noDecode
          and e = "''unexpected end of JSON input''"]
  by (simp add: okRemote_def blankRemote_def Quote_def quoteChar_def)

subsection \<open>Injection followed by redaction\<close>

lemma inject_shape:
  "\<exists>x. injectKafkaSasl d s =
     fmupd ''ingestionConfig''
       (JObj (fmupd ''streamIngestionConfig''
          (JObj (fmupd ''streamConfigMaps'' x
             (case asMap (fmlookup (case asMap (fmlookup d ''ingestionConfig'') of
                   Some m \<Rightarrow> m | None \<Rightarrow> fmempty) ''streamIngestionConfig'') of
                Some m \<Rightarrow> m | None \<Rightarrow> fmempty)))
          (case asMap (fmlookup d ''ingestionConfig'') of Some m \<Rightarrow> m | None \<Rightarrow> fmempty))) d \<and>
     (\<exists>m. x = JObj m \<or> (\<exists>l. x = JArr l))"
  unfolding injectKafkaSasl_def Let_def
  by (auto split: option.splits json.splits list.splits)

lemma remove_shape:
  assumes "x = JObj m \<or> x = JArr l"
  shows "\<exists>y. removeSaslJaasFromTableConfig (Map (fmupd ''ingestionConfig''
       (JObj (fmupd ''streamIngestionConfig'' (JObj (fmupd ''streamConfigMaps'' x si)) ing)) d)) =
     Map (fmupd ''ingestionConfig''
       (JObj (fmupd ''streamIngestionConfig'' (JObj (fmupd ''streamConfigMaps'' y si)) ing)) d)"
  using assms unfolding removeSaslJaasFromTableConfig_def Let_def
  by auto

lemma frame:
  assumes "outsideStreamConfigMaps p"
    and "ing = (case asMap (fmlookup d ''ingestionConfig'') of Some m \<Rightarrow> m | None \<Rightarrow> fmempty)"
    and "si = (case asMap (fmlookup ing ''streamIngestionConfig'') of Some m \<Rightarrow> m | None \<Rightarrow> fmempty)"
  shows "getPath p (JObj (fmupd ''ingestionConfig''
       (JObj (fmupd ''streamIngestionConfig'' (JObj (fmupd ''streamConfigMaps'' y si)) ing)) d)) =
     getPath p (JObj d)"
proof (cases p)
  case Nil
  with assms(1) show ?thesis by (simp add: outsideStreamConfigMaps_def)
next
  case (Cons k1 p1)
  show ?thesis
  proof (cases "k1 = ''ingestionConfig''")
    case False
    with Cons show ?thesis by simp
  next
    case k1: True
    show ?thesis
    proof (cases p1)
      case Nil
      with Cons k1 assms(1) show ?thesis
        by (simp add: outsideStreamConfigMaps_def streamConfigMapsPath_def)
    next
      case (Cons k2 p2)
      note p1 = Cons
      show ?thesis
      proof (cases "k2 = ''streamIngestionConfig''")
        case False
        with \<open>p = k1 # p1\<close> k1 p1 assms(2) show ?thesis
          by (cases "fmlookup d ''ingestionConfig''"; cases "the (fmlookup d ''ingestionConfig'')")
            (auto split: option.splits)
      next
        case k2: True
        show ?thesis
        proof (cases p2)
          case Nil
          with \<open>p = k1 # p1\<close> k1 p1 k2 assms(1) show ?thesis
            by (simp add: outsideStreamConfigMaps_def streamConfigMapsPath_def)
        next
          case (Cons k3 p3)
          with \<open>p = k1 # p1\<close> k1 p1 k2 assms(1) have k3: "k3 \<noteq> ''streamConfigMaps''"
            by (auto simp: outsideStreamConfigMaps_def streamConfigMapsPath_def)
          have lhs: "getPath p (JObj (fmupd ''ingestionConfig''
              (JObj (fmupd ''streamIngestionConfig'' (JObj (fmupd ''streamConfigMaps'' y si)) ing)) d))
              = (case fmlookup si k3 of None \<Rightarrow> None | Some v \<Rightarrow> getPath p3 v)"
            using \<open>p = k1 # p1\<close> k1 p1 k2 Cons k3 by simp
          have rhs: "getPath p (JObj d) = (case fmlookup si k3 of None \<Rightarrow> None | Some v \<Rightarrow> getPath p3 v)"
            using \<open>p = k1 # p1\<close> k1 p1 k2 Cons assms(2,3)
            apply (cases "fmlookup d ''ingestionConfig''")
             apply simp
            subgoal for a
              apply (cases a)
                   apply simp_all
              subgoal for m
                apply (cases "fmlookup m ''streamIngestionConfig''")
                 apply simp
                subgoal for b
                  by (cases b) simp_all
                done
              done
            done
          from lhs rhs show ?thesis by simp
        qed
      qed
    qed
  qed
qed


text \<open>
  C4. For every document \<open>d\<close> and credential string \<open>s\<close>, the document obtained by
  injecting \<open>s\<close> into \<open>d\<close> and redacting the result holds, at every path outside the
  stream-config-maps location, what \<open>d\<close> holds there.
\<close>

theorem inject_then_redact_frame:
  assumes "outsideStreamConfigMaps p"
  shows "getPath p (marshal (removeSaslJaasFromTableConfig (Map (injectKafkaSasl d s)))) =
         getPath p (JObj d)"
proof -
  define ing where "ing = (case asMap (fmlookup d ''ingestionConfig'') of Some m \<Rightarrow> m | None \<Rightarrow> fmempty)"
  define si where "si = (case asMap (fmlookup ing ''streamIngestionConfig'') of Some m \<Rightarrow> m | None \<Rightarrow> fmempty)"
  from inject_shape[of d s] obtain x where
    inj: "injectKafkaSasl d s = fmupd ''ingestionConfig''
       (JObj (fmupd ''streamIngestionConfig'' (JObj (fmupd ''streamConfigMaps'' x si)) ing)) d"
    and x: "\<exists>m. x = JObj m \<or> (\<exists>l. x = JArr l)"
    unfolding ing_def si_def by blast
  from x obtain m l where "x = JObj m \<or> x = JArr l" by blast
  from remove_shape[OF this, of si ing d] obtain y where
    "removeSaslJaasFromTableConfig (Map (injectKafkaSasl d s)) =
     Map (fmupd ''ingestionConfig''
       (JObj (fmupd ''streamIngestionConfig'' (JObj (fmupd ''streamConfigMaps'' y si)) ing)) d)"
    unfolding inj by blast
  then show ?thesis
    using frame[OF assms ing_def si_def, of y] by simp
qed

theorem inject_then_redact_frame_witness:
  "outsideStreamConfigMaps [''ingestionConfig'', ''batchIngestionConfig''] \<and>
   outsideStreamConfigMaps [''tableName''] \<and>
   getPath [''ingestionConfig'', ''batchIngestionConfig'']
     (marshal (removeSaslJaasFromTableConfig (Map (injectKafkaSasl realtimeDoc ''secret'')))) =
     Some JNull \<and>
   getPath [''tableName'']
     (marshal (removeSaslJaasFromTableConfig (Map (injectKafkaSasl realtimeDoc ''secret'')))) =
     Some (JStr ''events_REALTIME'')"
  using inject_then_redact_frame[of "[''ingestionConfig'', ''batchIngestionConfig'']"
          realtimeDoc "''secret''"]
        inject_then_redact_frame[of "[''tableName'']" realtimeDoc "''secret''"]
  by (simp add: outsideStreamConfigMaps_def streamConfigMapsPath_def realtimeDoc_def)

subsection \<open>Redaction is idempotent and leaves its input alone\<close>

lemma stripElement_idem: "stripElement (stripElement el) = stripElement el"
  by (cases el) simp_all

lemma stripElement_comp: "stripElement \<circ> stripElement = stripElement"
  by (rule ext) (simp add: stripElement_idem)

lemma removeSasl_idem:
  "removeSaslJaasFromTableConfig (removeSaslJaasFromTableConfig c) = removeSaslJaasFromTableConfig c"
  unfolding removeSaslJaasFromTableConfig_def Let_def
  by (auto split: gomap.splits option.splits json.splits simp: stripElement_comp)

lemma extends_refl: "extends h h"
  by (simp add: extends_def)

lemma extends_trans: "extends h1 h2 \<Longrightarrow> extends h2 h3 \<Longrightarrow> extends h1 h3"
  by (auto simp: extends_def)

lemma extends_alloc: "alloc h c = (h', a) \<Longrightarrow> extends h h' \<and> a = length h \<and> length h' = Suc (length h)"
  by (auto simp: alloc_def extends_def nth_append)

lemma extends_setKey: "extends h0 h \<Longrightarrow> length h0 \<le> a \<Longrightarrow> extends h0 (setKey h a k v)"
  by (auto simp: extends_def setKey_def split: cell.splits)

lemma extends_setIndex: "extends h0 h \<Longrightarrow> length h0 \<le> a \<Longrightarrow> extends h0 (setIndex h a i v)"
  by (auto simp: extends_def setIndex_def split: cell.splits)

lemma length_setKey [simp]: "length (setKey h a k v) = length h"
  by (simp add: setKey_def split: cell.splits)

lemma length_setIndex [simp]: "length (setIndex h a i v) = length h"
  by (simp add: setIndex_def split: cell.splits)

lemma extends_copyElements:
  "extends h0 h \<Longrightarrow> length h0 \<le> newList \<Longrightarrow> extends h0 (copyElements h newList i els)"
proof (induction els arbitrary: h i)
  case Nil
  then show ?case by simp
next
  case (Cons el els)
  show ?case
  proof (cases "mapAt h (Some el)")
    case None
    with Cons show ?thesis by (simp add: extends_setIndex)
  next
    case (Some m)
    have "extends h0 (h @ [MapCell (fmdrop ''sasl.jaas.config'' m)])"
      using Cons.prems(1) by (auto simp: extends_def nth_append)
    with Cons Some show ?thesis
      by (simp add: alloc_def extends_setIndex)
  qed
qed

lemma nth_setKey_other: "b \<noteq> a \<Longrightarrow> setKey h a k v ! b = h ! b"
  by (simp add: setKey_def split: cell.splits)

lemma nth_setIndex_other: "b \<noteq> a \<Longrightarrow> setIndex h a i v ! b = h ! b"
  by (simp add: setIndex_def split: cell.splits)

lemma copyElements_keeps:
  "length h \<le> length (copyElements h newList i els) \<and>
   (\<forall>b < length h. b \<noteq> newList \<longrightarrow> copyElements h newList i els ! b = h ! b)"
proof (induction els arbitrary: h i)
  case Nil
  then show ?case by simp
next
  case (Cons el els)
  show ?case
  proof (cases "mapAt h (Some el)")
    case None
    with Cons[of "setIndex h newList i el" "Suc i"] show ?thesis
      by (simp add: nth_setIndex_other)
  next
    case (Some m)
    with Cons[of "setIndex (h @ [MapCell (fmdrop ''sasl.jaas.config'' m)]) newList i (VMap (length h))" "Suc i"]
    show ?thesis
      by (auto simp: alloc_def nth_setIndex_other nth_append)
  qed
qed

lemma extends_append: "extends h0 h \<Longrightarrow> extends h0 (h @ cs)"
  by (auto simp: extends_def nth_append)

lemma store_preserved:
  assumes "removeSaslJaasFromTableConfig_store h input = Some (h', out)"
  shows "extends h h'"
  using assms
  unfolding removeSaslJaasFromTableConfig_store_def Let_def alloc_def
  by (auto split: option.splits
      intro!: extends_setKey extends_copyElements extends_append extends_refl)


lemma repr_extends: "repr h v j \<Longrightarrow> extends h h' \<Longrightarrow> repr h' v j"
proof (induction rule: repr.induct)
  case (repr_slice a xs js)
  from repr_slice.IH have "list_all2 (repr h') xs js"
    using repr_slice.prems by (auto elim!: list_all2_mono)
  with repr_slice show ?case
    by (auto simp: extends_def intro!: repr.repr_slice)
next
  case (repr_map a m jm)
  then show ?case
    by (auto simp: extends_def intro!: repr.repr_map)
qed (auto intro: repr.intros)

lemma reprMap_extends: "reprMap h m jm \<Longrightarrow> extends h h' \<Longrightarrow> reprMap h' m jm"
  by (auto simp: reprMap_def intro: repr_extends)

lemma repr_mapI: "a < length h \<Longrightarrow> h ! a = MapCell m \<Longrightarrow> reprMap h m jm \<Longrightarrow> repr h (VMap a) (JObj jm)"
  by (auto simp: reprMap_def intro: repr.repr_map)

lemma repr_mapD:
  assumes "repr h (VMap a) j"
  obtains m jm where "j = JObj jm" "a < length h" "h ! a = MapCell m" "reprMap h m jm"
  using assms by (cases rule: repr.cases) (auto simp: reprMap_def)

lemma repr_sliceD:
  assumes "repr h (VSlice a) j"
  obtains xs js where "j = JArr js" "a < length h" "h ! a = SliceCell xs" "list_all2 (repr h) xs js"
  using assms by (cases rule: repr.cases) auto

lemma reprMap_upd: "reprMap h m jm \<Longrightarrow> repr h v j \<Longrightarrow> reprMap h (fmupd k v m) (fmupd k j jm)"
  by (auto simp: reprMap_def)

lemma reprMap_drop: "reprMap h m jm \<Longrightarrow> reprMap h (fmdrop k m) (fmdrop k jm)"
  by (auto simp: reprMap_def split: if_splits)

lemma reprMap_lookup_None: "reprMap h m jm \<Longrightarrow> fmlookup m k = None \<longleftrightarrow> fmlookup jm k = None"
  by (metis reprMap_def fmdom_notD fmdom_notI)

lemma reprMap_lookup_Some:
  assumes "reprMap h m jm" "fmlookup m k = Some v"
  obtains j where "fmlookup jm k = Some j" "repr h v j"
  using assms reprMap_lookup_None[OF assms(1), of k]
  by (cases "fmlookup jm k") (auto simp: reprMap_def)


lemma mapAt_extends:
  "extends h h' \<Longrightarrow> b < length h \<Longrightarrow> h ! b = MapCell vm \<Longrightarrow> mapAt h' (Some (VMap b)) = Some vm"
  by (auto simp: extends_def)

lemma sliceAt_extends:
  "extends h h' \<Longrightarrow> b < length h \<Longrightarrow> h ! b = SliceCell xs \<Longrightarrow>
   sliceAt h' (Some (VSlice b)) = Some xs \<and> mapAt h' (Some (VSlice b)) = None"
  by (auto simp: extends_def)

lemma repr_classify:
  assumes "repr h v j"
  shows "(\<exists>b vm jm. v = VMap b \<and> j = JObj jm \<and> b < length h \<and> h ! b = MapCell vm \<and> reprMap h vm jm) \<or>
         (\<exists>b xs js. v = VSlice b \<and> j = JArr js \<and> b < length h \<and> h ! b = SliceCell xs \<and>
            list_all2 (repr h) xs js) \<or>
         ((\<forall>h'. mapAt h' (Some v) = None \<and> sliceAt h' (Some v) = None) \<and>
          asMap (Some j) = None \<and> (\<forall>js. j \<noteq> JArr js))"
  using assms by (cases rule: repr.cases) (auto simp: reprMap_def)

lemma lookup_classify:
  assumes "reprMap h m jm"
  shows "(\<exists>b vm' jm'. fmlookup m k = Some (VMap b) \<and> fmlookup jm k = Some (JObj jm') \<and>
            b < length h \<and> h ! b = MapCell vm' \<and> reprMap h vm' jm') \<or>
         (\<exists>b xs js. fmlookup m k = Some (VSlice b) \<and> fmlookup jm k = Some (JArr js) \<and>
            b < length h \<and> h ! b = SliceCell xs \<and> list_all2 (repr h) xs js) \<or>
         ((\<forall>h'. mapAt h' (fmlookup m k) = None \<and> sliceAt h' (fmlookup m k) = None) \<and>
          asMap (fmlookup jm k) = None \<and> (\<forall>js. fmlookup jm k \<noteq> Some (JArr js)))"
proof (cases "fmlookup m k")
  case None
  with reprMap_lookup_None[OF assms, of k] show ?thesis by simp
next
  case (Some v)
  from reprMap_lookup_Some[OF assms Some] obtain j where j: "fmlookup jm k = Some j" "repr h v j"
    by blast
  from repr_classify[OF j(2)] Some j(1) show ?thesis by auto
qed

lemma run_no_ingestion:
  assumes "a < length h" "h ! a = MapCell m"
    and "\<forall>h'. mapAt h' (fmlookup m ''ingestionConfig'') = None"
  shows "removeSaslJaasFromTableConfig_store h (Some a) = Some (h @ [MapCell m], Some (length h))"
  using assms by (simp add: removeSaslJaasFromTableConfig_store_def alloc_def)

lemma run_no_stream:
  assumes "a < length h" "h ! a = MapCell m"
    and "fmlookup m ''ingestionConfig'' = Some (VMap ia)" "ia < length h" "h ! ia = MapCell im"
    and "\<forall>h'. mapAt h' (fmlookup im ''streamIngestionConfig'') = None"
  shows "removeSaslJaasFromTableConfig_store h (Some a) =
     Some (h @ [MapCell (fmupd ''ingestionConfig'' (VMap (Suc (length h))) m), MapCell im],
           Some (length h))"
  using assms
  by (simp add: removeSaslJaasFromTableConfig_store_def alloc_def setKey_def nth_append
      list_update_append Suc_diff_le)

lemma run_other:
  assumes "a < length h" "h ! a = MapCell m"
    and "fmlookup m ''ingestionConfig'' = Some (VMap ia)" "ia < length h" "h ! ia = MapCell im"
    and "fmlookup im ''streamIngestionConfig'' = Some (VMap sa)" "sa < length h" "h ! sa = MapCell sm"
    and "\<forall>h'. mapAt h' (fmlookup sm ''streamConfigMaps'') = None \<and>
              sliceAt h' (fmlookup sm ''streamConfigMaps'') = None"
  shows "removeSaslJaasFromTableConfig_store h (Some a) =
     Some (h @ [MapCell (fmupd ''ingestionConfig'' (VMap (Suc (length h))) m),
                MapCell (fmupd ''streamIngestionConfig'' (VMap (Suc (Suc (length h)))) im),
                MapCell sm],
           Some (length h))"
  using assms
  by (simp add: removeSaslJaasFromTableConfig_store_def alloc_def setKey_def nth_append
      list_update_append Suc_diff_le)

lemma run_map:
  assumes "a < length h" "h ! a = MapCell m"
    and "fmlookup m ''ingestionConfig'' = Some (VMap ia)" "ia < length h" "h ! ia = MapCell im"
    and "fmlookup im ''streamIngestionConfig'' = Some (VMap sa)" "sa < length h" "h ! sa = MapCell sm"
    and "fmlookup sm ''streamConfigMaps'' = Some (VMap ca)" "ca < length h" "h ! ca = MapCell cm"
  shows "removeSaslJaasFromTableConfig_store h (Some a) =
     Some (h @ [MapCell (fmupd ''ingestionConfig'' (VMap (Suc (length h))) m),
                MapCell (fmupd ''streamIngestionConfig'' (VMap (Suc (Suc (length h)))) im),
                MapCell (fmupd ''streamConfigMaps'' (VMap (Suc (Suc (Suc (length h))))) sm),
                MapCell (fmdrop ''sasl.jaas.config'' cm)],
           Some (length h))"
  using assms
  by (simp add: removeSaslJaasFromTableConfig_store_def alloc_def setKey_def nth_append
      list_update_append Suc_diff_le)

lemma run_slice:
  assumes "a < length h" "h ! a = MapCell m"
    and "fmlookup m ''ingestionConfig'' = Some (VMap ia)" "ia < length h" "h ! ia = MapCell im"
    and "fmlookup im ''streamIngestionConfig'' = Some (VMap sa)" "sa < length h" "h ! sa = MapCell sm"
    and "fmlookup sm ''streamConfigMaps'' = Some (VSlice la)" "la < length h" "h ! la = SliceCell xs"
  shows "removeSaslJaasFromTableConfig_store h (Some a) =
     Some (setKey
             (copyElements
                (h @ [MapCell (fmupd ''ingestionConfig'' (VMap (Suc (length h))) m),
                      MapCell (fmupd ''streamIngestionConfig'' (VMap (Suc (Suc (length h)))) im),
                      MapCell sm,
                      SliceCell (replicate (length xs) VNull)])
                (Suc (Suc (Suc (length h)))) 0 xs)
             (Suc (Suc (length h))) ''streamConfigMaps'' (VSlice (Suc (Suc (Suc (length h))))),
           Some (length h))"
  using assms
  by (simp add: removeSaslJaasFromTableConfig_store_def alloc_def setKey_def nth_append
      list_update_append Suc_diff_le Let_def)

lemma stripElement_not_map: "asMap (Some j) = None \<Longrightarrow> stripElement j = j"
  by (cases j) simp_all

lemma copyElements_repr:
  assumes "list_all2 (repr h0) els js" "extends h0 h" "length h0 \<le> nl" "nl < length h"
    and "h ! nl = SliceCell (pre @ replicate (length els) VNull)" "i = length pre"
  shows "\<exists>res. copyElements h nl i els ! nl = SliceCell (pre @ res) \<and>
     list_all2 (\<lambda>r j. repr h0 r j \<or>
        (\<exists>b vm jm. r = VMap b \<and> j = JObj jm \<and> length h \<le> b \<and>
           b < length (copyElements h nl i els) \<and> copyElements h nl i els ! b = MapCell vm \<and>
           reprMap h0 vm jm)) res (map stripElement js)"
  using assms
proof (induction els arbitrary: h i pre js)
  case Nil
  then show ?case by simp
next
  case (Cons el els)
  from Cons.prems(1) obtain j js' where js: "js = j # js'" and el: "repr h0 el j"
    and rest: "list_all2 (repr h0) els js'"
    by (auto simp: list_all2_Cons1)
  let ?P = "\<lambda>h F r j. repr h0 r j \<or>
        (\<exists>b vm jm. r = VMap b \<and> j = JObj jm \<and> length h \<le> b \<and>
           b < length F \<and> F ! b = MapCell vm \<and> reprMap h0 vm jm)"
  from repr_classify[OF el]
  consider (map) b vm jm where "el = VMap b" "j = JObj jm" "b < length h0" "h0 ! b = MapCell vm"
      "reprMap h0 vm jm"
    | (other) "mapAt h (Some el) = None" "stripElement j = j"
    by (auto simp: stripElement_not_map)
  then show ?case
  proof cases
    case map
    define h' where "h' = setIndex (h @ [MapCell (fmdrop ''sasl.jaas.config'' vm)]) nl i (VMap (length h))"
    have m: "mapAt h (Some el) = Some vm"
      using map mapAt_extends[OF Cons.prems(2)] by simp
    have run: "copyElements h nl i (el # els) = copyElements h' nl (Suc i) els"
      using m by (simp add: alloc_def h'_def)
    have ext: "extends h0 h'"
      unfolding h'_def using Cons.prems(2,3) by (intro extends_setIndex extends_append)
    have len: "length h' = Suc (length h)"
      by (simp add: h'_def)
    have cell: "h' ! nl = SliceCell ((pre @ [VMap (length h)]) @ replicate (length els) VNull)"
      using Cons.prems(4,5,6)
      by (simp add: h'_def setIndex_def nth_append list_update_append)
    have fresh: "h' ! length h = MapCell (fmdrop ''sasl.jaas.config'' vm)"
      using Cons.prems(4) by (simp add: h'_def nth_setIndex_other)
    from Cons.IH[OF rest ext Cons.prems(3) _ cell, of "Suc i"] Cons.prems(4,6) len
    obtain res where res: "copyElements h' nl (Suc i) els ! nl = SliceCell ((pre @ [VMap (length h)]) @ res)"
      and all: "list_all2 (?P h' (copyElements h' nl (Suc i) els)) res (map stripElement js')"
      by auto
    let ?F = "copyElements h' nl (Suc i) els"
    from copyElements_keeps[of h' nl "Suc i" els] len Cons.prems(4) fresh
    have F: "length h < length ?F" "?F ! length h = MapCell (fmdrop ''sasl.jaas.config'' vm)"
      by auto
    have head: "?P h ?F (VMap (length h)) (stripElement j)"
      using map F reprMap_drop[OF map(5)] by auto
    have tail: "list_all2 (?P h ?F) res (map stripElement js')"
      using all len by (auto elim!: list_all2_mono)
    show ?thesis
      unfolding run js using res head tail
      by (intro exI[of _ "VMap (length h) # res"]) simp
  next
    case other
    define h' where "h' = setIndex h nl i el"
    have run: "copyElements h nl i (el # els) = copyElements h' nl (Suc i) els"
      using other by (simp add: h'_def)
    have ext: "extends h0 h'"
      unfolding h'_def using Cons.prems(2,3) by (intro extends_setIndex)
    have len: "length h' = length h"
      by (simp add: h'_def)
    have cell: "h' ! nl = SliceCell ((pre @ [el]) @ replicate (length els) VNull)"
      using Cons.prems(4,5,6)
      by (simp add: h'_def setIndex_def nth_append list_update_append)
    from Cons.IH[OF rest ext Cons.prems(3) _ cell, of "Suc i"] Cons.prems(4,6) len
    obtain res where res: "copyElements h' nl (Suc i) els ! nl = SliceCell ((pre @ [el]) @ res)"
      and all: "list_all2 (?P h' (copyElements h' nl (Suc i) els)) res (map stripElement js')"
      by auto
    let ?F = "copyElements h' nl (Suc i) els"
    have head: "?P h ?F el (stripElement j)"
      using other el by simp
    have tail: "list_all2 (?P h ?F) res (map stripElement js')"
      using all len by (auto elim!: list_all2_mono)
    show ?thesis
      unfolding run js using res head tail
      by (intro exI[of _ "el # res"]) simp
  qed
qed

lemma assemble:
  assumes "extends h hF" "reprMap h m d" "out < length hF" "hF ! out = MapCell (fmupd k v m)"
    and "repr hF v j"
  shows "repr hF (VMap out) (JObj (fmupd k j d))"
proof -
  have "reprMap hF m d"
    using assms(2,1) by (rule reprMap_extends)
  then have "reprMap hF (fmupd k v m) (fmupd k j d)"
    using assms(5) by (rule reprMap_upd)
  with assms(3,4) show ?thesis
    by (rule repr_mapI)
qed

lemma assemble_copy:
  assumes "extends h hF" "reprMap h m d" "out < length hF" "hF ! out = MapCell m"
  shows "repr hF (VMap out) (JObj d)"
proof -
  have "reprMap hF m d"
    using assms(2,1) by (rule reprMap_extends)
  with assms(3,4) show ?thesis
    by (rule repr_mapI)
qed

lemma lookup_map_or_not:
  assumes "reprMap h m jm"
  shows "(\<exists>b vm' jm'. fmlookup m k = Some (VMap b) \<and> fmlookup jm k = Some (JObj jm') \<and>
            b < length h \<and> h ! b = MapCell vm' \<and> reprMap h vm' jm') \<or>
         ((\<forall>h'. mapAt h' (fmlookup m k) = None) \<and> asMap (fmlookup jm k) = None)"
proof -
  note c = lookup_classify[OF assms, of k]
  show ?thesis
  proof (rule disjE[OF c])
    assume "\<exists>b vm' jm'. fmlookup m k = Some (VMap b) \<and> fmlookup jm k = Some (JObj jm') \<and>
            b < length h \<and> h ! b = MapCell vm' \<and> reprMap h vm' jm'"
    then show ?thesis by (rule disjI1)
  next
    assume "(\<exists>b xs js. fmlookup m k = Some (VSlice b) \<and> fmlookup jm k = Some (JArr js) \<and>
            b < length h \<and> h ! b = SliceCell xs \<and> list_all2 (repr h) xs js) \<or>
         ((\<forall>h'. mapAt h' (fmlookup m k) = None \<and> sliceAt h' (fmlookup m k) = None) \<and>
          asMap (fmlookup jm k) = None \<and> (\<forall>js. fmlookup jm k \<noteq> Some (JArr js)))"
    then show ?thesis
    proof
      assume "\<exists>b xs js. fmlookup m k = Some (VSlice b) \<and> fmlookup jm k = Some (JArr js) \<and>
            b < length h \<and> h ! b = SliceCell xs \<and> list_all2 (repr h) xs js"
      then obtain b js where "fmlookup m k = Some (VSlice b)" "fmlookup jm k = Some (JArr js)"
        by (elim exE conjE)
      then show ?thesis by simp
    next
      assume "(\<forall>h'. mapAt h' (fmlookup m k) = None \<and> sliceAt h' (fmlookup m k) = None) \<and>
          asMap (fmlookup jm k) = None \<and> (\<forall>js. fmlookup jm k \<noteq> Some (JArr js))"
      then show ?thesis by simp
    qed
  qed
qed

lemma store_simulates:
  assumes "repr h (VMap a) (JObj d)"
  shows "\<exists>h' out. removeSaslJaasFromTableConfig_store h (Some a) = Some (h', Some out) \<and>
           repr h' (VMap out) (marshal (removeSaslJaasFromTableConfig (Map d)))"
proof -
  from assms obtain m where a: "a < length h" "h ! a = MapCell m" and rm: "reprMap h m d"
    by (auto elim: repr_mapD)
  let ?n = "length h"
  from lookup_map_or_not[OF rm, of "''ingestionConfig''"]
  show ?thesis
  proof (elim disjE exE conjE)
    assume none: "\<forall>h'. mapAt h' (fmlookup m ''ingestionConfig'') = None"
      and tnone: "asMap (fmlookup d ''ingestionConfig'') = None"
    have run: "removeSaslJaasFromTableConfig_store h (Some a) = Some (h @ [MapCell m], Some ?n)"
      by (rule run_no_ingestion[OF a none])
    have tree: "removeSaslJaasFromTableConfig (Map d) = Map d"
      using tnone by (simp add: removeSaslJaasFromTableConfig_def)
    have "repr (h @ [MapCell m]) (VMap ?n) (JObj d)"
      by (rule assemble_copy[OF store_preserved[OF run] rm]) simp_all
    with run tree show ?thesis by simp
  next
    fix ia im ing
    assume ing: "fmlookup m ''ingestionConfig'' = Some (VMap ia)"
      "fmlookup d ''ingestionConfig'' = Some (JObj ing)"
      "ia < length h" "h ! ia = MapCell im" and rim: "reprMap h im ing"
    from lookup_map_or_not[OF rim, of "''streamIngestionConfig''"]
    show ?thesis
    proof (elim disjE exE conjE)
      assume none: "\<forall>h'. mapAt h' (fmlookup im ''streamIngestionConfig'') = None"
        and tnone: "asMap (fmlookup ing ''streamIngestionConfig'') = None"
      let ?hF = "h @ [MapCell (fmupd ''ingestionConfig'' (VMap (Suc ?n)) m), MapCell im]"
      have run: "removeSaslJaasFromTableConfig_store h (Some a) = Some (?hF, Some ?n)"
        by (rule run_no_stream[OF a ing(1,3,4) none])
      have tree: "removeSaslJaasFromTableConfig (Map d) = Map (fmupd ''ingestionConfig'' (JObj ing) d)"
        using tnone ing(2) by (simp add: removeSaslJaasFromTableConfig_def)
      note ext = store_preserved[OF run]
      have "repr ?hF (VMap (Suc ?n)) (JObj ing)"
        by (rule assemble_copy[OF ext rim]) (simp_all add: nth_append)
      then have "repr ?hF (VMap ?n) (JObj (fmupd ''ingestionConfig'' (JObj ing) d))"
        by (intro assemble[OF ext rm]) (simp_all add: nth_append)
      with run tree show ?thesis by simp
    next
      fix sa sm si
      assume si: "fmlookup im ''streamIngestionConfig'' = Some (VMap sa)"
        "fmlookup ing ''streamIngestionConfig'' = Some (JObj si)"
        "sa < length h" "h ! sa = MapCell sm" and rsm: "reprMap h sm si"
      let ?c0 = "MapCell (fmupd ''ingestionConfig'' (VMap (Suc ?n)) m)"
      let ?c1 = "MapCell (fmupd ''streamIngestionConfig'' (VMap (Suc (Suc ?n))) im)"
      have finish: "\<exists>h' out. removeSaslJaasFromTableConfig_store h (Some a) = Some (h', Some out) \<and>
           repr h' (VMap out) (marshal (removeSaslJaasFromTableConfig (Map d)))"
        if run: "removeSaslJaasFromTableConfig_store h (Some a) = Some (hF, Some ?n)"
          and tree: "removeSaslJaasFromTableConfig (Map d) =
             Map (fmupd ''ingestionConfig'' (JObj (fmupd ''streamIngestionConfig'' (JObj nsi) ing)) d)"
          and len: "Suc (Suc ?n) < length hF"
          and c0: "hF ! ?n = ?c0" and c1: "hF ! Suc ?n = ?c1"
          and top: "repr hF (VMap (Suc (Suc ?n))) (JObj nsi)"
        for hF nsi
      proof -
        note ext = store_preserved[OF run]
        have "repr hF (VMap (Suc ?n))
                (JObj (fmupd ''streamIngestionConfig'' (JObj nsi) ing))"
          using len c1 top by (intro assemble[OF ext rim]) simp_all
        then have "repr hF (VMap ?n) (JObj (fmupd ''ingestionConfig''
                (JObj (fmupd ''streamIngestionConfig'' (JObj nsi) ing)) d))"
          using len c0 by (intro assemble[OF ext rm]) simp_all
        with run tree show ?thesis by simp
      qed
      from lookup_classify[OF rsm, of "''streamConfigMaps''"]
      show ?thesis
      proof (elim disjE exE conjE)
        fix ca cm scm
        assume scm: "fmlookup sm ''streamConfigMaps'' = Some (VMap ca)"
          "fmlookup si ''streamConfigMaps'' = Some (JObj scm)"
          "ca < length h" "h ! ca = MapCell cm" and rcm: "reprMap h cm scm"
        let ?hF = "h @ [?c0, ?c1,
            MapCell (fmupd ''streamConfigMaps'' (VMap (Suc (Suc (Suc ?n)))) sm),
            MapCell (fmdrop ''sasl.jaas.config'' cm)]"
        have run: "removeSaslJaasFromTableConfig_store h (Some a) = Some (?hF, Some ?n)"
          by (rule run_map[OF a ing(1,3,4) si(1,3,4) scm(1,3,4)])
        have tree: "removeSaslJaasFromTableConfig (Map d) =
             Map (fmupd ''ingestionConfig'' (JObj (fmupd ''streamIngestionConfig''
               (JObj (fmupd ''streamConfigMaps'' (JObj (fmdrop ''sasl.jaas.config'' scm)) si)) ing)) d)"
          using ing(2) si(2) scm(2) by (simp add: removeSaslJaasFromTableConfig_def)
        note ext = store_preserved[OF run]
        have "repr ?hF (VMap (Suc (Suc (Suc ?n)))) (JObj (fmdrop ''sasl.jaas.config'' scm))"
          by (rule assemble_copy[OF ext reprMap_drop[OF rcm]]) (simp_all add: nth_append)
        then have "repr ?hF (VMap (Suc (Suc ?n)))
            (JObj (fmupd ''streamConfigMaps'' (JObj (fmdrop ''sasl.jaas.config'' scm)) si))"
          by (intro assemble[OF ext rsm]) (simp_all add: nth_append)
        then show ?thesis
          by (intro finish[OF run tree]) (simp_all add: nth_append)
      next
        fix la xs js
        assume l: "fmlookup sm ''streamConfigMaps'' = Some (VSlice la)"
          "fmlookup si ''streamConfigMaps'' = Some (JArr js)"
          "la < length h" "h ! la = SliceCell xs" and rxs: "list_all2 (repr h) xs js"
        let ?nl = "Suc (Suc (Suc ?n))"
        let ?h6 = "h @ [?c0, ?c1, MapCell sm, SliceCell (replicate (length xs) VNull)]"
        let ?h7 = "copyElements ?h6 ?nl 0 xs"
        let ?hF = "setKey ?h7 (Suc (Suc ?n)) ''streamConfigMaps'' (VSlice ?nl)"
        have run: "removeSaslJaasFromTableConfig_store h (Some a) = Some (?hF, Some ?n)"
          by (rule run_slice[OF a ing(1,3,4) si(1,3,4) l(1,3,4)])
        have tree: "removeSaslJaasFromTableConfig (Map d) =
             Map (fmupd ''ingestionConfig'' (JObj (fmupd ''streamIngestionConfig''
               (JObj (fmupd ''streamConfigMaps'' (JArr (map stripElement js)) si)) ing)) d)"
          using ing(2) si(2) l(2) by (simp add: removeSaslJaasFromTableConfig_def)
        note ext = store_preserved[OF run]
        have ext6: "extends h ?h6" by (intro extends_append extends_refl)
        from copyElements_repr[OF rxs ext6, of ?nl "[]" 0]
        obtain res where res: "?h7 ! ?nl = SliceCell res"
          and all: "list_all2 (\<lambda>r j. repr h r j \<or>
            (\<exists>b vm jm. r = VMap b \<and> j = JObj jm \<and> length ?h6 \<le> b \<and>
               b < length ?h7 \<and> ?h7 ! b = MapCell vm \<and> reprMap h vm jm)) res (map stripElement js)"
          by (auto simp: nth_append)
        from copyElements_keeps[of ?h6 ?nl 0 xs]
        have len7: "length ?h6 \<le> length ?h7"
          and keep: "\<And>b. b < length ?h6 \<Longrightarrow> b \<noteq> ?nl \<Longrightarrow> ?h7 ! b = ?h6 ! b"
          by auto
        have lenF: "length ?hF = length ?h7" by simp
        have otherF: "\<And>b. b \<noteq> Suc (Suc ?n) \<Longrightarrow> ?hF ! b = ?h7 ! b"
          by (simp add: nth_setKey_other)
        have c2: "?h7 ! Suc (Suc ?n) = MapCell sm"
          using keep[of "Suc (Suc ?n)"] by (simp add: nth_append)
        have cF2: "?hF ! Suc (Suc ?n) = MapCell (fmupd ''streamConfigMaps'' (VSlice ?nl) sm)"
          using c2 len7 by (simp add: setKey_def)
        have elems: "list_all2 (repr ?hF) res (map stripElement js)"
          using all
        proof (rule list_all2_mono)
          fix r j
          assume "repr h r j \<or> (\<exists>b vm jm. r = VMap b \<and> j = JObj jm \<and> length ?h6 \<le> b \<and>
               b < length ?h7 \<and> ?h7 ! b = MapCell vm \<and> reprMap h vm jm)"
          then show "repr ?hF r j"
          proof (elim disjE exE conjE)
            assume "repr h r j"
            then show ?thesis by (rule repr_extends[OF _ ext])
          next
            fix b vm jm
            assume b: "r = VMap b" "j = JObj jm" "length ?h6 \<le> b" "b < length ?h7"
              "?h7 ! b = MapCell vm" "reprMap h vm jm"
            have "?hF ! b = MapCell vm"
              using otherF[of b] b(3,5) by simp
            with b show ?thesis
              using assemble_copy[OF ext b(6), of b] lenF by simp
          qed
        qed
        have "repr ?hF (VSlice ?nl) (JArr (map stripElement js))"
          using res elems len7 otherF[of ?nl] lenF
          by (intro repr.repr_slice[where xs = res]) simp_all
        then have "repr ?hF (VMap (Suc (Suc ?n)))
            (JObj (fmupd ''streamConfigMaps'' (JArr (map stripElement js)) si))"
          using cF2 len7 lenF by (intro assemble[OF ext rsm]) simp_all
        moreover have "?hF ! ?n = ?c0" "?hF ! Suc ?n = ?c1"
          using otherF[of ?n] otherF[of "Suc ?n"] keep[of ?n] keep[of "Suc ?n"]
          by (simp_all add: nth_append)
        moreover have "Suc (Suc ?n) < length ?hF"
          using len7 lenF by simp
        ultimately show ?thesis
          by (intro finish[OF run tree])
      next
        assume none: "\<forall>h'. mapAt h' (fmlookup sm ''streamConfigMaps'') = None \<and>
              sliceAt h' (fmlookup sm ''streamConfigMaps'') = None"
          and tnone: "asMap (fmlookup si ''streamConfigMaps'') = None"
            "\<forall>js. fmlookup si ''streamConfigMaps'' \<noteq> Some (JArr js)"
        let ?hF = "h @ [?c0, ?c1, MapCell sm]"
        have run: "removeSaslJaasFromTableConfig_store h (Some a) = Some (?hF, Some ?n)"
          by (rule run_other[OF a ing(1,3,4) si(1,3,4) none])
        have tree: "removeSaslJaasFromTableConfig (Map d) =
             Map (fmupd ''ingestionConfig'' (JObj (fmupd ''streamIngestionConfig''
               (JObj si) ing)) d)"
          using ing(2) si(2) tnone
          by (cases "fmlookup si ''streamConfigMaps''"; cases "the (fmlookup si ''streamConfigMaps'')")
            (simp_all add: removeSaslJaasFromTableConfig_def)
        note ext = store_preserved[OF run]
        have "repr ?hF (VMap (Suc (Suc ?n))) (JObj si)"
          by (rule assemble_copy[OF ext rsm]) (simp_all add: nth_append)
        then show ?thesis
          by (intro finish[OF run tree]) (simp_all add: nth_append)
      qed
    qed
  qed
qed

lemma reprMap_empty: "reprMap h fmempty fmempty"
  by (simp add: reprMap_def)

lemma secretStore_cells:
  "length secretStore = 5"
  "secretStore ! 0 = MapCell (fmupd ''tableName'' (VStr ''events_REALTIME'')
     (fmupd ''ingestionConfig'' (VMap 1) fmempty))"
  "secretStore ! 1 = MapCell (fmupd ''streamIngestionConfig'' (VMap 2) fmempty)"
  "secretStore ! 2 = MapCell (fmupd ''streamConfigMaps'' (VSlice 3) fmempty)"
  "secretStore ! 3 = SliceCell [VMap 4]"
  "secretStore ! 4 = MapCell (fmupd ''sasl.jaas.config'' (VStr ''secret'')
     (fmupd ''stream.kafka.topic.name'' (VStr ''events'') fmempty))"
  by (simp_all add: secretStore_def)

lemma repr_secretStore: "repr secretStore (VMap 0) (JObj secretDoc)"
proof -
  have r4: "repr secretStore (VMap 4)
      (JObj (fmupd ''sasl.jaas.config'' (JStr ''secret'')
         (fmupd ''stream.kafka.topic.name'' (JStr ''events'') fmempty)))"
  proof (rule repr_mapI)
    show "4 < length secretStore" by (simp add: secretStore_cells)
    show "secretStore ! 4 = MapCell (fmupd ''sasl.jaas.config'' (VStr ''secret'')
       (fmupd ''stream.kafka.topic.name'' (VStr ''events'') fmempty))"
      by (rule secretStore_cells)
    show "reprMap secretStore (fmupd ''sasl.jaas.config'' (VStr ''secret'')
       (fmupd ''stream.kafka.topic.name'' (VStr ''events'') fmempty))
       (fmupd ''sasl.jaas.config'' (JStr ''secret'')
         (fmupd ''stream.kafka.topic.name'' (JStr ''events'') fmempty))"
      by (intro reprMap_upd reprMap_empty repr.repr_str)
  qed
  have r3: "repr secretStore (VSlice 3)
      (JArr [JObj (fmupd ''sasl.jaas.config'' (JStr ''secret'')
         (fmupd ''stream.kafka.topic.name'' (JStr ''events'') fmempty))])"
  proof (rule repr.repr_slice)
    show "3 < length secretStore" by (simp add: secretStore_cells)
    show "secretStore ! 3 = SliceCell [VMap 4]" by (rule secretStore_cells)
    show "list_all2 (repr secretStore) [VMap 4]
       [JObj (fmupd ''sasl.jaas.config'' (JStr ''secret'')
         (fmupd ''stream.kafka.topic.name'' (JStr ''events'') fmempty))]"
      using r4 by simp
  qed
  have r2: "repr secretStore (VMap 2) (JObj (fmupd ''streamConfigMaps''
      (JArr [JObj (fmupd ''sasl.jaas.config'' (JStr ''secret'')
         (fmupd ''stream.kafka.topic.name'' (JStr ''events'') fmempty))]) fmempty))"
  proof (rule repr_mapI)
    show "2 < length secretStore" by (simp add: secretStore_cells)
    show "secretStore ! 2 = MapCell (fmupd ''streamConfigMaps'' (VSlice 3) fmempty)"
      by (rule secretStore_cells)
    show "reprMap secretStore (fmupd ''streamConfigMaps'' (VSlice 3) fmempty)
       (fmupd ''streamConfigMaps''
          (JArr [JObj (fmupd ''sasl.jaas.config'' (JStr ''secret'')
             (fmupd ''stream.kafka.topic.name'' (JStr ''events'') fmempty))]) fmempty)"
      by (intro reprMap_upd reprMap_empty r3)
  qed
  have r1: "repr secretStore (VMap 1) (JObj (fmupd ''streamIngestionConfig''
      (JObj (fmupd ''streamConfigMaps''
      (JArr [JObj (fmupd ''sasl.jaas.config'' (JStr ''secret'')
         (fmupd ''stream.kafka.topic.name'' (JStr ''events'') fmempty))]) fmempty)) fmempty))"
  proof (rule repr_mapI)
    show "1 < length secretStore" by (simp add: secretStore_cells)
    show "secretStore ! 1 = MapCell (fmupd ''streamIngestionConfig'' (VMap 2) fmempty)"
      by (rule secretStore_cells)
    show "reprMap secretStore (fmupd ''streamIngestionConfig'' (VMap 2) fmempty)
       (fmupd ''streamIngestionConfig''
          (JObj (fmupd ''streamConfigMaps''
            (JArr [JObj (fmupd ''sasl.jaas.config'' (JStr ''secret'')
               (fmupd ''stream.kafka.topic.name'' (JStr ''events'') fmempty))]) fmempty))
          fmempty)"
      by (intro reprMap_upd reprMap_empty r2)
  qed
  show ?thesis
    unfolding secretDoc_def
  proof (rule repr_mapI)
    show "0 < length secretStore" by (simp add: secretStore_cells)
    show "secretStore ! 0 = MapCell (fmupd ''tableName'' (VStr ''events_REALTIME'')
       (fmupd ''ingestionConfig'' (VMap 1) fmempty))"
      by (rule secretStore_cells)
    show "reprMap secretStore (fmupd ''tableName'' (VStr ''events_REALTIME'')
         (fmupd ''ingestionConfig'' (VMap 1) fmempty))
       (fmupd ''tableName'' (JStr ''events_REALTIME'')
         (fmupd ''ingestionConfig''
            (JObj (fmupd ''streamIngestionConfig''
               (JObj (fmupd ''streamConfigMaps''
                  (JArr [JObj (fmupd ''sasl.jaas.config'' (JStr ''secret'')
                     (fmupd ''stream.kafka.topic.name'' (JStr ''events'') fmempty))])
                  fmempty))
               fmempty))
            fmempty))"
      by (intro reprMap_upd reprMap_empty r1 repr.repr_str)
  qed
qed

lemma removeSasl_Map: "\<exists>d'. removeSaslJaasFromTableConfig (Map d) = Map d'"
  by (simp add: removeSaslJaasFromTableConfig_def Let_def split: option.splits)

text \<open>
  C3. Redacting twice gives what redacting once gives, for every document and for the
  nil map. On the store, the call on the address of a map that represents a document
  returns: every cell that was in the store before the call is the same after it, so
  the input still represents its document, nested maps and sequence elements included,
  and the result represents the redacted document. A second call, on the result of the
  first, again leaves every cell as it was and returns a map that represents the same
  redacted document. The call on the nil map returns the nil map and leaves the store as
  it is.
\<close>

theorem redaction_idempotent_input_unchanged:
  assumes "repr h (VMap a) (JObj d)"
  shows "(\<exists>h' out. removeSaslJaasFromTableConfig_store h (Some a) = Some (h', Some out) \<and>
            (\<forall>b < length h. h' ! b = h ! b) \<and>
            repr h' (VMap a) (JObj d) \<and>
            repr h' (VMap out) (marshal (removeSaslJaasFromTableConfig (Map d))) \<and>
            (\<exists>h'' out'. removeSaslJaasFromTableConfig_store h' (Some out) = Some (h'', Some out') \<and>
               (\<forall>b < length h'. h'' ! b = h' ! b) \<and>
               repr h'' (VMap out') (marshal (removeSaslJaasFromTableConfig (Map d))))) \<and>
         removeSaslJaasFromTableConfig_store h None = Some (h, None) \<and>
         removeSaslJaasFromTableConfig (removeSaslJaasFromTableConfig c) =
           removeSaslJaasFromTableConfig c"
proof -
  from store_simulates[OF assms] obtain h' out
    where run: "removeSaslJaasFromTableConfig_store h (Some a) = Some (h', Some out)"
      and out: "repr h' (VMap out) (marshal (removeSaslJaasFromTableConfig (Map d)))"
    by blast
  note ext = store_preserved[OF run]
  have same: "\<forall>b < length h. h' ! b = h ! b"
    using ext by (simp add: extends_def)
  have still: "repr h' (VMap a) (JObj d)"
    using assms ext by (rule repr_extends)
  obtain d' where d': "removeSaslJaasFromTableConfig (Map d) = Map d'"
    using removeSasl_Map by blast
  from out d' have "repr h' (VMap out) (JObj d')"
    by simp
  from store_simulates[OF this] obtain h'' out'
    where run': "removeSaslJaasFromTableConfig_store h' (Some out) = Some (h'', Some out')"
      and out': "repr h'' (VMap out') (marshal (removeSaslJaasFromTableConfig (Map d')))"
    by blast
  have same': "\<forall>b < length h'. h'' ! b = h' ! b"
    using store_preserved[OF run'] by (simp add: extends_def)
  have again: "repr h'' (VMap out') (marshal (removeSaslJaasFromTableConfig (Map d)))"
    using out' d' removeSasl_idem[of "Map d"] by simp
  have nil: "removeSaslJaasFromTableConfig_store h None = Some (h, None)"
    by (simp add: removeSaslJaasFromTableConfig_store_def)
  from run same still out run' same' again nil removeSasl_idem[of c] show ?thesis
    by blast
qed

theorem redaction_idempotent_input_unchanged_witness:
  "repr secretStore (VMap 0) (JObj secretDoc) \<and>
   (\<exists>h' out. removeSaslJaasFromTableConfig_store secretStore (Some 0) = Some (h', Some out) \<and>
      (\<forall>b < length secretStore. h' ! b = secretStore ! b) \<and>
      repr h' (VMap 0) (JObj secretDoc) \<and>
      repr h' (VMap out) (marshal (removeSaslJaasFromTableConfig (Map secretDoc))) \<and>
      (\<exists>h'' out'. removeSaslJaasFromTableConfig_store h' (Some out) = Some (h'', Some out') \<and>
         (\<forall>b < length h'. h'' ! b = h' ! b) \<and>
         repr h'' (VMap out') (marshal (removeSaslJaasFromTableConfig (Map secretDoc))))) \<and>
   removeSaslJaasFromTableConfig (removeSaslJaasFromTableConfig (Map secretDoc)) =
     removeSaslJaasFromTableConfig (Map secretDoc)"
  using redaction_idempotent_input_unchanged[OF repr_secretStore, of "Map secretDoc"] repr_secretStore
  by simp

end
